theory Spec2Isabelle
  imports Complex_Main
begin

section \<open>Numbers\<close>

text \<open>
  The server is JavaScript: every number is an IEEE double. The model reads a JavaScript
  number as a \<^typ>\<open>real\<close>, so rounding, infinities and NaN are outside it. Where the
  source divides, the divisor is stated; where it relies on \<open>||\<close> or \<open>??\<close> for a missing
  value, the value is an \<^typ>\<open>'a option\<close>.
\<close>

section \<open>POST /process-video: the audio tempo filter\<close>

text \<open>
  \<open>server/server.js\<close>, lines 99-109. The source builds the string \<open>audioFilter\<close> from
  the literals \<open>atempo=0.5\<close>, \<open>atempo=2.0\<close>, the interpolation \<open>atempo=${speedNum}\<close>
  and the suffix \<open>,volume=0.98,aresample=48000:async=1\<close>. The model keeps the stages of
  that comma-separated chain as a list, in the order of the string.
\<close>

datatype pv_afilter =
    atempo real
  | volume real
  | aresample_async nat

definition audioFilter :: "real \<Rightarrow> pv_afilter list" where
  "audioFilter speedNum =
     (if speedNum = 0.5 then [atempo 0.5]
      else if speedNum = 0.25 then [atempo 0.5, atempo 0.5]
      else if speedNum = 2 then [atempo 2.0]
      else if speedNum < 0.5 then [atempo 0.5, atempo 0.5]
      else if speedNum > 2 then [atempo 2.0]
      else [atempo speedNum])
     @ [volume 0.98, aresample_async 48000]"

text \<open>The factors of the atempo stages of a chain, in order, and their product.\<close>

fun tempo_factors :: "pv_afilter list \<Rightarrow> real list" where
  "tempo_factors [] = []"
| "tempo_factors (atempo f # fs) = f # tempo_factors fs"
| "tempo_factors (_ # fs) = tempo_factors fs"

definition tempo_product :: "pv_afilter list \<Rightarrow> real" where
  "tempo_product fs = prod_list (tempo_factors fs)"

section \<open>The job registry\<close>

text \<open>
  \<open>const jobs = new Map()\<close> (line 50), keyed by the job id string. A job object has the
  fields set at lines 63-69 (process-video) and 385-391 (export); \<open>type\<close> is set to
  \<open>'export'\<close> by the export endpoint only and \<open>error\<close> by the failure paths only.
\<close>

datatype job_status = Processing | Done | Error

record Job =
  status :: job_status
  progress :: real
  outputPath :: string
  inputPath :: "string option"
  filename :: string
  jtype :: "string option"
  error_msg :: "string option"

type_synonym jobs = "string \<rightharpoonup> Job"

subsection \<open>POST /process-video\<close>

text \<open>\<open>jobs.set(jobId, {status: 'processing', progress: 0, ...})\<close>, lines 63-69.\<close>

definition pv_create :: "string \<Rightarrow> string \<Rightarrow> string \<Rightarrow> string \<Rightarrow> jobs \<Rightarrow> jobs" where
  "pv_create jobId outPath inPath outName js =
     js(jobId \<mapsto> \<lparr>status = Processing, progress = 0, outputPath = outPath,
                    inputPath = Some inPath, filename = outName,
                    jtype = None, error_msg = None\<rparr>)"

text \<open>
  The \<open>'progress'\<close> handler, lines 127-139. \<open>progress.timemark\<close> is absent (\<open>None\<close>) or
  a string \<open>h:m:s\<close>; the model takes the three numbers that \<open>+timeParts[k]\<close> reads from
  it. \<open>expectedDuration\<close> is computed once per job at line 88.
\<close>

definition pv_on_progress :: "string \<Rightarrow> real \<Rightarrow> (real \<times> real \<times> real) option \<Rightarrow> jobs \<Rightarrow> jobs" where
  "pv_on_progress jobId expectedDuration timemark js =
     (case js jobId of
        None \<Rightarrow> js
      | Some job \<Rightarrow>
          if status job \<noteq> Done \<and> status job \<noteq> Error then
            (case timemark of
               None \<Rightarrow> js
             | Some (h, m, s) \<Rightarrow>
                 let seconds = h * 60 * 60 + m * 60 + s;
                     percent = (seconds / expectedDuration) * 100
                 in js(jobId \<mapsto> job\<lparr>progress := max 0 (min 99 percent)\<rparr>))
          else js)"

text \<open>The \<open>'end'\<close> handler, lines 140-149.\<close>

definition pv_on_end :: "string \<Rightarrow> jobs \<Rightarrow> jobs" where
  "pv_on_end jobId js =
     (case js jobId of
        None \<Rightarrow> js
      | Some job \<Rightarrow> js(jobId \<mapsto> job\<lparr>status := Done, progress := 100\<rparr>))"

text \<open>
  The \<open>'error'\<close> handler, lines 150-160; the metadata failure of lines 76-85 and the
  outer \<open>catch\<close> of lines 165-173 write the same two fields.
\<close>

definition pv_on_error :: "string \<Rightarrow> string \<Rightarrow> jobs \<Rightarrow> jobs" where
  "pv_on_error jobId msg js =
     (case js jobId of
        None \<Rightarrow> js
      | Some job \<Rightarrow> js(jobId \<mapsto> job\<lparr>status := Error, error_msg := Some msg\<rparr>))"

datatype pv_event =
    PvProgress real "(real \<times> real \<times> real) option"
  | PvEnd
  | PvError string

fun pv_step :: "string \<Rightarrow> pv_event \<Rightarrow> jobs \<Rightarrow> jobs" where
  "pv_step jobId (PvProgress expectedDuration timemark) js =
     pv_on_progress jobId expectedDuration timemark js"
| "pv_step jobId PvEnd js = pv_on_end jobId js"
| "pv_step jobId (PvError msg) js = pv_on_error jobId msg js"

subsection \<open>POST /export\<close>

text \<open>\<open>jobs.set(exportId, {..., type: 'export'})\<close>, lines 385-391.\<close>

definition ex_create :: "string \<Rightarrow> string \<Rightarrow> string \<Rightarrow> jobs \<Rightarrow> jobs" where
  "ex_create exportId outPath outName js =
     js(exportId \<mapsto> \<lparr>status = Processing, progress = 0, outputPath = outPath,
                       inputPath = None, filename = outName,
                       jtype = Some ''export'', error_msg = None\<rparr>)"

text \<open>
  The \<open>'progress'\<close> handler, lines 739-745: \<open>job.progress = progress.percent || 50\<close>.
  \<open>progress.percent\<close> is absent (\<open>None\<close>) or a number; \<open>||\<close> replaces an absent
  value and the number 0 by 50.
\<close>

definition ex_on_progress :: "string \<Rightarrow> real option \<Rightarrow> jobs \<Rightarrow> jobs" where
  "ex_on_progress exportId percent js =
     (case js exportId of
        None \<Rightarrow> js
      | Some job \<Rightarrow>
          js(exportId \<mapsto> job\<lparr>progress :=
               (case percent of
                  None \<Rightarrow> 50
                | Some p \<Rightarrow> if p \<noteq> 0 then p else 50)\<rparr>))"

text \<open>After the encoder's promise resolves, lines 751-757.\<close>

definition ex_on_complete :: "string \<Rightarrow> jobs \<Rightarrow> jobs" where
  "ex_on_complete exportId js =
     (case js exportId of
        None \<Rightarrow> js
      | Some finalJob \<Rightarrow> js(exportId \<mapsto> finalJob\<lparr>status := Done, progress := 100\<rparr>))"

text \<open>The \<open>catch\<close> block, lines 759-766.\<close>

definition ex_on_failure :: "string \<Rightarrow> string \<Rightarrow> jobs \<Rightarrow> jobs" where
  "ex_on_failure exportId msg js =
     (case js exportId of
        None \<Rightarrow> js
      | Some job \<Rightarrow> js(exportId \<mapsto> job\<lparr>status := Error, error_msg := Some msg\<rparr>))"

subsection \<open>GET /export-progress/:exportId\<close>

text \<open>
  The response is a server-sent event stream: the events written so far and whether
  \<open>res.end()\<close> has been called. Nothing written after \<open>res.end()\<close> reaches the client.
\<close>

datatype sse_event =
    ErrorEvent string
  | StatusEvent job_status real

record response =
  events :: "sse_event list"
  ended :: bool

definition fresh_response :: response where
  "fresh_response = \<lparr>events = [], ended = False\<rparr>"

definition res_write :: "sse_event \<Rightarrow> response \<Rightarrow> response" where
  "res_write e res = (if ended res then res else res\<lparr>events := events res @ [e]\<rparr>)"

definition res_end :: "response \<Rightarrow> response" where
  "res_end res = res\<lparr>ended := True\<rparr>"

text \<open>\<open>sendUpdate\<close> of the export progress endpoint, lines 787-800.\<close>

definition export_sendUpdate :: "jobs \<Rightarrow> string \<Rightarrow> response \<Rightarrow> response" where
  "export_sendUpdate js exportId res =
     (case js exportId of
        None \<Rightarrow> res_end (res_write (ErrorEvent ''Export not found'') res)
      | Some job \<Rightarrow>
          if jtype job \<noteq> Some ''export'' then
            res_end (res_write (ErrorEvent ''Export not found'') res)
          else
            let res' = res_write (StatusEvent (status job) (progress job)) res
            in if status job = Done \<or> status job = Error then res_end res' else res')"

text \<open>
  The endpoint calls \<open>sendUpdate\<close> once at once (line 803) and then on every tick of a
  500 ms timer (line 806). The registry may change between ticks: \<open>first\<close> is the
  registry at the request, \<open>later\<close> the registries at the ticks that follow.
\<close>

definition export_progress :: "jobs \<Rightarrow> jobs list \<Rightarrow> string \<Rightarrow> response" where
  "export_progress first later exportId =
     fold (\<lambda>js res. export_sendUpdate js exportId res) later
       (export_sendUpdate first exportId fresh_response)"

text \<open>
  A registry entry for \<open>jobId\<close> that the export endpoints do not serve: a job whose
  \<open>type\<close> field was never set.
\<close>

definition not_export :: "jobs \<Rightarrow> string \<Rightarrow> bool" where
  "not_export js jobId = (case js jobId of None \<Rightarrow> False | Some job \<Rightarrow> jtype job = None)"

section \<open>POST /export: the timeline\<close>

text \<open>
  The timeline is the JSON the client sends; its shape is declared in \<open>types.ts\<close>.
  Only the fields the export handler reads are kept. An optional field
  (\<open>transitionStart?\<close>, \<open>volume?\<close>, ...) is an \<^typ>\<open>'a option\<close>.
\<close>

datatype TransitionType =
    cross_dissolve
  | additive_dissolve
  | blur_dissolve
  | non_additive_dissolve
  | smooth_cut
  | dip_to_black
  | dip_to_white
  | fade_in
  | fade_out

record Transition =
  ttype :: TransitionType
  tduration :: real

record ReframeKeyframe =
  kf_time :: real
  kf_x :: real
  kf_y :: real
  kf_scale :: real

record ColorGrading =
  brightness :: real
  contrast :: real
  saturation :: real
  exposure :: real
  sharpness :: real

record Clip =
  clip_id :: string
  mediaFileId :: string
  sourceStart :: real
  sourceEnd :: real
  timelineStart :: real
  transitionStart :: "Transition option"
  transitionEnd :: "Transition option"
  reframeKeyframes :: "ReframeKeyframe list option"
  clip_volume :: "real option"
  processedVideoUrl :: "string option"
  colorGrading :: "ColorGrading option"

record Track =
  clips :: "Clip list"
  track_volume :: "real option"

datatype TemplateLayout = solo | duet_vertical | duet_horizontal | trio_stack

record Timeline =
  videoTracks :: "Track list"
  audioTracks :: "Track list option"
  layout :: TemplateLayout

text \<open>
  What the handler reads besides the timeline: the job registry, the file system test
  \<open>fs.existsSync\<close>, and the uploaded files \<open>req.files.videos\<close> (an absent list is the
  empty list), each with the name and path multer gave it.
\<close>

record UploadedFile =
  up_filename :: string
  up_path :: string

record ExportEnv =
  registry :: jobs
  existsSync :: "string \<Rightarrow> bool"
  videos :: "UploadedFile list"

section \<open>String helpers\<close>

fun starts_with :: "string \<Rightarrow> string \<Rightarrow> bool" where
  "starts_with s [] = True"
| "starts_with [] (p # ps) = False"
| "starts_with (c # cs) (p # ps) = (c = p \<and> starts_with cs ps)"

text \<open>\<open>s.includes(t)\<close>.\<close>

fun str_includes :: "string \<Rightarrow> string \<Rightarrow> bool" where
  "str_includes [] t = (t = [])"
| "str_includes (c # cs) t = (starts_with (c # cs) t \<or> str_includes cs t)"

text \<open>
  \<open>s.split(sep)[1]\<close> for a non-empty separator: the text between the first and the
  second occurrence of \<open>sep\<close> (or the end), and \<open>undefined\<close> when \<open>sep\<close> does not occur.
\<close>

fun after_sep :: "string \<Rightarrow> string \<Rightarrow> string option" where
  "after_sep sep [] = None"
| "after_sep sep (c # cs) =
     (if starts_with (c # cs) sep then Some (drop (length sep) (c # cs))
      else after_sep sep cs)"

fun before_sep :: "string \<Rightarrow> string \<Rightarrow> string" where
  "before_sep sep [] = []"
| "before_sep sep (c # cs) =
     (if starts_with (c # cs) sep then [] else c # before_sep sep cs)"

definition split_second :: "string \<Rightarrow> string \<Rightarrow> string option" where
  "split_second sep s = map_option (before_sep sep) (after_sep sep s)"

text \<open>The ASCII lower-case form of a string, for the \<open>/i\<close> flag of a regular expression.\<close>

definition lower_char :: "char \<Rightarrow> char" where
  "lower_char c =
     (case map_of (zip ''ABCDEFGHIJKLMNOPQRSTUVWXYZ'' ''abcdefghijklmnopqrstuvwxyz'') c of
        Some l \<Rightarrow> l
      | None \<Rightarrow> c)"

definition ends_with :: "string \<Rightarrow> string \<Rightarrow> bool" where
  "ends_with s t = starts_with (rev s) (rev t)"

text \<open>\<open>/\.(jpg|jpeg|png|webp|bmp|gif)$/i.test(videoPath)\<close>, line 435.\<close>

definition isImage :: "string \<Rightarrow> bool" where
  "isImage videoPath =
     list_ex (\<lambda>ext. ends_with (map lower_char videoPath) ext)
       [''.jpg'', ''.jpeg'', ''.png'', ''.webp'', ''.bmp'', ''.gif'']"

section \<open>POST /export: resolving the media of a clip\<close>

text \<open>
  \<open>req.files?.videos?.find(f => f.filename && f.filename.includes(clip.mediaFileId))\<close>,
  lines 424 and 657.
\<close>

definition findUpload :: "ExportEnv \<Rightarrow> Clip \<Rightarrow> UploadedFile option" where
  "findUpload env clip =
     find (\<lambda>f. up_filename f \<noteq> [] \<and> str_includes (up_filename f) (mediaFileId clip)) (videos env)"

text \<open>\<open>getVideoPath\<close>, lines 416-426; \<open>null\<close> is \<open>None\<close>.\<close>

definition getVideoPath :: "ExportEnv \<Rightarrow> Clip \<Rightarrow> string option" where
  "getVideoPath env clip =
     (let processed =
            (case processedVideoUrl clip of
               None \<Rightarrow> None
             | Some url \<Rightarrow>
                 if url = [] then None
                 else (case split_second ''/download/'' url of
                         None \<Rightarrow> None
                       | Some jobId \<Rightarrow>
                           (case registry env jobId of
                              None \<Rightarrow> None
                            | Some processJob \<Rightarrow>
                                if existsSync env (outputPath processJob)
                                then Some (outputPath processJob) else None)))
      in case processed of
           Some p \<Rightarrow> Some p
         | None \<Rightarrow>
             (case findUpload env clip of
                Some uploadedFile \<Rightarrow> Some (up_path uploadedFile)
              | None \<Rightarrow> None))"

section \<open>The filter graph\<close>

text \<open>
  The handler pushes template strings onto the array \<open>filterComplex\<close>. The model keeps
  one constructor for each template, holding the values the template interpolates;
  \<open>render\<close> below writes the strings. Stream names are the labels between brackets.
\<close>

datatype label =
    L_v nat
  | L_a nat
  | L_a_raw nat
  | L_vm nat
  | L_am nat
  | L_v0_faded
  | L_a0_faded
  | L_v_final_faded
  | L_a_final_faded
  | L_v_final
  | L_a_final
  | L_a_trim nat
  | L_a_delay nat
  | L_a_vol nat
  | L_a_out nat
  | L_a_mixed

text \<open>
  The expressions the crop filter is given: the encoder evaluates them for each clip
  with \<open>iw\<close> and \<open>ih\<close> the width and height of the frame entering the crop.
\<close>

datatype expr =
    Lit nat
  | Num real
  | IW
  | IH
  | Paren expr
  | Sub expr expr
  | Mul expr expr
  | Div expr expr
  | Max expr expr
  | Min expr expr

fun eval_expr :: "real \<Rightarrow> real \<Rightarrow> expr \<Rightarrow> real" where
  "eval_expr iw ih (Lit n) = real n"
| "eval_expr iw ih (Num r) = r"
| "eval_expr iw ih IW = iw"
| "eval_expr iw ih IH = ih"
| "eval_expr iw ih (Paren e) = eval_expr iw ih e"
| "eval_expr iw ih (Sub a b) = eval_expr iw ih a - eval_expr iw ih b"
| "eval_expr iw ih (Mul a b) = eval_expr iw ih a * eval_expr iw ih b"
| "eval_expr iw ih (Div a b) = eval_expr iw ih a / eval_expr iw ih b"
| "eval_expr iw ih (Max a b) = max (eval_expr iw ih a) (eval_expr iw ih b)"
| "eval_expr iw ih (Min a b) = min (eval_expr iw ih a) (eval_expr iw ih b)"

datatype eq_param = Brightness real | Contrast real | Saturation real

datatype vstage =
    VTrim real real
  | VSetptsStart
  | VScaleCover nat nat
  | VCrop nat nat expr expr
  | VSetsar nat
  | VFps nat
  | VFormatYuv420p
  | VEq "eq_param list"
  | VUnsharp real

datatype fade_color = black | white

datatype xfade_name = fade | pixelize | fadeblack | fadewhite

datatype amix_duration = amix_longest | amix_shortest | amix_first

datatype filt =
    ClipVideo nat "vstage list"
  | SilentAudio nat real real
  | ClipAudio nat real real real
  | FadeIn label real fade_color label
  | AFadeIn label real label
  | Xfade label label xfade_name real real label
  | Acrossfade label label real label
  | ConcatV label label label
  | ConcatA label label label
  | FadeOut label real real fade_color label
  | AFadeOut label real real label
  | NullV label label
  | Aresample label label
  | Atrim nat real real label
  | Adelay label real label
  | Volume label real label
  | Amix "label list" nat amix_duration nat label
  | Anull label label

section \<open>POST /export, step 1: the filters of one clip\<close>

text \<open>Lines 459-464: the mean of the keyframes' \<open>x\<close>, summed left to right.\<close>

definition avgX :: "ReframeKeyframe list \<Rightarrow> real" where
  "avgX keyframes = fold (\<lambda>kf acc. acc + kf_x kf) keyframes 0 / real (length keyframes)"

text \<open>
  Line 478: \<open>max(0\,min(iw-${cropWidth}\,(${avgX}*iw)-(${cropWidth}/2)))\<close>, and line 481:
  \<open>(ih-${cropHeight})/2\<close>, with \<open>cropWidth = 1080\<close> and \<open>cropHeight = 1920\<close>.
\<close>

definition cropXExpr :: "real \<Rightarrow> expr" where
  "cropXExpr a =
     Max (Lit 0) (Min (Sub IW (Lit 1080))
                      (Sub (Paren (Mul (Num a) IW)) (Paren (Div (Lit 1080) (Lit 2)))))"

definition cropYExpr :: expr where
  "cropYExpr = Div (Paren (Sub IH (Lit 1920))) (Lit 2)"

text \<open>Line 487: the crop of a clip without keyframes, \<open>(iw-1080)/2:(ih-1920)/2\<close>.\<close>

definition centerCrop :: "vstage list" where
  "centerCrop =
     [VScaleCover 1080 1920,
      VCrop 1080 1920 (Div (Paren (Sub IW (Lit 1080))) (Lit 2))
                      (Div (Paren (Sub IH (Lit 1920))) (Lit 2))]"

text \<open>Lines 494-514: the colour grading stages.\<close>

definition gradingStages :: "ColorGrading \<Rightarrow> vstage list" where
  "gradingStages cg =
     (let effectiveBrightness = (brightness cg - 1) + (exposure cg * 0.5);
          eqParams =
            (if \<bar>effectiveBrightness\<bar> > 0.001 then [Brightness effectiveBrightness] else [])
            @ (if \<bar>contrast cg - 1\<bar> > 0.001 then [Contrast (contrast cg)] else [])
            @ (if \<bar>saturation cg - 1\<bar> > 0.001 then [Saturation (saturation cg)] else [])
      in (if length eqParams > 0 then [VEq eqParams] else [])
         @ (if sharpness cg > 0 then [VUnsharp (sharpness cg * 1.5)] else []))"

text \<open>Lines 449-515: the chain \<open>vFilter\<close> of a clip, between \<open>[i:v]\<close> and \<open>[vi]\<close>.\<close>

definition vFilter :: "Clip \<Rightarrow> vstage list" where
  "vFilter clip =
     [VTrim (sourceStart clip) (sourceEnd clip - sourceStart clip), VSetptsStart]
     @ (case reframeKeyframes clip of
          None \<Rightarrow> centerCrop
        | Some keyframes \<Rightarrow>
            if length keyframes > 0 then
              [VScaleCover 1080 1920,
               VCrop 1080 1920 (cropXExpr (avgX keyframes)) cropYExpr]
            else centerCrop)
     @ [VSetsar 1, VFps 30, VFormatYuv420p]
     @ (case colorGrading clip of
          None \<Rightarrow> []
        | Some cg \<Rightarrow> gradingStages cg)"

text \<open>Lines 519-531: the audio filter \<open>aFilter\<close> of a clip.\<close>

definition aFilter :: "Track \<Rightarrow> nat \<Rightarrow> Clip \<Rightarrow> bool \<Rightarrow> filt" where
  "aFilter track i clip isImg =
     (let trackVolume = (case track_volume track of None \<Rightarrow> 1 | Some v \<Rightarrow> v);
          clipVolume = (case clip_volume clip of None \<Rightarrow> 1 | Some v \<Rightarrow> v);
          finalVolume = trackVolume * clipVolume;
          duration = sourceEnd clip - sourceStart clip
      in if isImg then SilentAudio i duration finalVolume
         else ClipAudio i (sourceStart clip) duration finalVolume)"

record InputData =
  in_path :: string
  in_isImage :: bool
  in_duration :: real

datatype export_error =
    UnsupportedLayout
  | NoClips
  | VideoNotFound string

text \<open>
  Lines 429-532: the loop over the clips of the track, from index \<open>i\<close> on. It throws at
  the first clip whose file is not found; otherwise it yields \<open>inputData\<close> and the
  filters pushed, two for each clip.
\<close>

fun prepareInputs ::
  "ExportEnv \<Rightarrow> Track \<Rightarrow> nat \<Rightarrow> Clip list \<Rightarrow> export_error + (InputData list \<times> filt list)" where
  "prepareInputs env track i [] = Inr ([], [])"
| "prepareInputs env track i (clip # rest) =
     (case getVideoPath env clip of
        None \<Rightarrow> Inl (VideoNotFound (clip_id clip))
      | Some videoPath \<Rightarrow>
          if videoPath = [] then Inl (VideoNotFound (clip_id clip))
          else
            (case prepareInputs env track (Suc i) rest of
               Inl e \<Rightarrow> Inl e
             | Inr (inputData, filters) \<Rightarrow>
                 Inr (\<lparr>in_path = videoPath, in_isImage = isImage videoPath,
                       in_duration = sourceEnd clip - sourceStart clip\<rparr> # inputData,
                      ClipVideo i (vFilter clip)
                      # aFilter track i clip (isImage videoPath)
                      # filters)))"

section \<open>POST /export, step 2: the transition chain\<close>

text \<open>
  The variables of lines 535-539 together with the array \<open>filterComplex\<close>: the handles
  of the stream built so far and the running end time of the chain.
\<close>

record chain =
  filterComplex :: "filt list"
  lastV :: label
  lastA :: label
  currentChainEnd :: real

text \<open>\<open>t && t.duration > 0\<close> for an optional transition \<open>t\<close>.\<close>

definition hasTransition :: "Transition option \<Rightarrow> bool" where
  "hasTransition t = (case t of None \<Rightarrow> False | Some tr \<Rightarrow> tduration tr > 0)"

text \<open>Lines 543-555: the fade-in of the first clip.\<close>

definition startTransition :: "Clip \<Rightarrow> chain \<Rightarrow> chain" where
  "startTransition clip0 st =
     (case transitionStart clip0 of
        None \<Rightarrow> st
      | Some t \<Rightarrow>
          if tduration t > 0 then
            (let fadeColor = (if ttype t = dip_to_white then white else black)
             in st\<lparr>filterComplex := filterComplex st @
                      [FadeIn (lastV st) (tduration t) fadeColor L_v0_faded,
                       AFadeIn (lastA st) (tduration t) L_a0_faded],
                    lastV := L_v0_faded,
                    lastA := L_a0_faded\<rparr>)
          else st)"

text \<open>
  Lines 562-572: the transition of a boundary, the end transition of the earlier clip
  first. \<open>transitionType\<close> stays \<open>'none'\<close> (\<open>None\<close>) and \<open>transitionDuration\<close> 0 when
  neither clip declares one of positive duration.
\<close>

definition resolveTransition :: "Clip \<Rightarrow> Clip \<Rightarrow> TransitionType option \<times> real" where
  "resolveTransition clip nextClip =
     (if hasTransition (transitionEnd clip) then
        (Some (ttype (the (transitionEnd clip))), tduration (the (transitionEnd clip)))
      else if hasTransition (transitionStart nextClip) then
        (Some (ttype (the (transitionStart nextClip))),
         tduration (the (transitionStart nextClip)))
      else (None, 0))"

text \<open>Lines 576-586.\<close>

fun xfadeMap :: "TransitionType \<Rightarrow> xfade_name" where
  "xfadeMap cross_dissolve = fade"
| "xfadeMap additive_dissolve = fade"
| "xfadeMap blur_dissolve = pixelize"
| "xfadeMap non_additive_dissolve = fade"
| "xfadeMap smooth_cut = fade"
| "xfadeMap dip_to_black = fadeblack"
| "xfadeMap dip_to_white = fadewhite"
| "xfadeMap fade_in = fade"
| "xfadeMap fade_out = fade"

text \<open>Lines 559-624: the body of the loop over the middle boundaries, at index \<open>i\<close>.\<close>

definition middleStep :: "nat \<Rightarrow> Clip \<Rightarrow> Clip \<Rightarrow> chain \<Rightarrow> chain" where
  "middleStep i clip nextClip st =
     (let (transitionType, transitionDuration) = resolveTransition clip nextClip;
          ffmpegTransition = (case transitionType of None \<Rightarrow> fade | Some ty \<Rightarrow> xfadeMap ty)
      in if transitionDuration > 0 \<and> transitionType \<noteq> None then
           (let offset = currentChainEnd st - transitionDuration
            in if offset < 0 then
                 (let nextDur = sourceEnd nextClip - sourceStart nextClip
                  in st\<lparr>filterComplex := filterComplex st @
                           [ConcatV (lastV st) (L_v (i + 1)) (L_vm (i + 1)),
                            ConcatA (lastA st) (L_a (i + 1)) (L_am (i + 1))],
                         currentChainEnd := currentChainEnd st + nextDur\<rparr>)
               else
                 (let nextDur = sourceEnd nextClip - sourceStart nextClip
                  in st\<lparr>filterComplex := filterComplex st @
                           [Xfade (lastV st) (L_v (i + 1)) ffmpegTransition
                                  transitionDuration offset (L_vm (i + 1)),
                            Acrossfade (lastA st) (L_a (i + 1)) transitionDuration
                                  (L_am (i + 1))],
                         lastV := L_vm (i + 1),
                         lastA := L_am (i + 1),
                         currentChainEnd := offset + nextDur\<rparr>))
         else
           (let nextDur = sourceEnd nextClip - sourceStart nextClip
            in st\<lparr>filterComplex := filterComplex st @
                     [ConcatV (lastV st) (L_v (i + 1)) (L_vm (i + 1)),
                      ConcatA (lastA st) (L_a (i + 1)) (L_am (i + 1))],
                   lastV := L_vm (i + 1),
                   lastA := L_am (i + 1),
                   currentChainEnd := currentChainEnd st + nextDur\<rparr>))"

text \<open>Line 558: \<open>for (let i = 0; i < totalClips - 1; i++)\<close>, from index \<open>i\<close> on.\<close>

fun middleTransitions :: "nat \<Rightarrow> Clip list \<Rightarrow> chain \<Rightarrow> chain" where
  "middleTransitions i (clip # nextClip # rest) st =
     middleTransitions (Suc i) (nextClip # rest) (middleStep i clip nextClip st)"
| "middleTransitions i _ st = st"

text \<open>Lines 628-645: the fade-out of the last clip.\<close>

definition endTransition :: "Clip \<Rightarrow> chain \<Rightarrow> chain" where
  "endTransition lastClip st =
     (case transitionEnd lastClip of
        None \<Rightarrow> st
      | Some t \<Rightarrow>
          if tduration t > 0 then
            (let fadeOutStart = currentChainEnd st - tduration t;
                 fadeColor = (if ttype t = dip_to_white then white else black)
             in if fadeOutStart > 0 then
                  st\<lparr>filterComplex := filterComplex st @
                        [FadeOut (lastV st) fadeOutStart (tduration t) fadeColor L_v_final_faded,
                         AFadeOut (lastA st) fadeOutStart (tduration t) L_a_final_faded],
                      lastV := L_v_final_faded,
                      lastA := L_a_final_faded\<rparr>
                else st)
          else st)"

text \<open>Lines 647-648.\<close>

definition finalOutputs :: "chain \<Rightarrow> chain" where
  "finalOutputs st =
     st\<lparr>filterComplex := filterComplex st @
           [NullV (lastV st) L_v_final, Aresample (lastA st) L_a_final]\<rparr>"

text \<open>
  Lines 535-555: the chain when the loop over the middle boundaries starts, for a
  non-empty list of clips whose step 1 filters are \<open>filters\<close>.
\<close>

definition chainStart :: "Clip list \<Rightarrow> filt list \<Rightarrow> chain" where
  "chainStart cs filters =
     startTransition (hd cs)
       \<lparr>filterComplex = filters, lastV = L_v 0, lastA = L_a 0,
        currentChainEnd = sourceEnd (hd cs) - sourceStart (hd cs)\<rparr>"

text \<open>Lines 535-648.\<close>

definition transitionChain :: "Clip list \<Rightarrow> filt list \<Rightarrow> chain" where
  "transitionChain cs filters =
     finalOutputs (endTransition (last cs) (middleTransitions 0 cs (chainStart cs filters)))"

text \<open>
  The chain when the loop reaches the boundary between clip \<open>k\<close> and clip \<open>k + 1\<close>:
  the boundaries before it have been folded in.
\<close>

definition chainAt :: "Clip list \<Rightarrow> filt list \<Rightarrow> nat \<Rightarrow> chain" where
  "chainAt cs filters k = middleTransitions 0 (take (Suc k) cs) (chainStart cs filters)"

section \<open>POST /export, step 3: the music tracks\<close>

record mix =
  mix_filters :: "filt list"
  inputs :: "string list"
  audioInputs :: "label list"
  inputIndex :: nat

text \<open>Lines 656-675: one clip of an audio track.\<close>

definition mixClip :: "ExportEnv \<Rightarrow> Track \<Rightarrow> Clip \<Rightarrow> mix \<Rightarrow> mix" where
  "mixClip env track clip m =
     (case findUpload env clip of
        None \<Rightarrow> m
      | Some uploadedFile \<Rightarrow>
          (let duration = sourceEnd clip - sourceStart clip;
               delay = timelineStart clip * 1000;
               n = inputIndex m;
               filterChain =
                 [Atrim n (sourceStart clip) duration (L_a_trim n),
                  Adelay (L_a_trim n) delay (L_a_delay n),
                  Volume (L_a_delay n)
                    ((case track_volume track of None \<Rightarrow> 1 | Some v \<Rightarrow> v)
                     * (case clip_volume clip of None \<Rightarrow> 1 | Some v \<Rightarrow> v))
                    (L_a_vol n),
                  Aresample (L_a_vol n) (L_a_out n)]
           in \<lparr>mix_filters = mix_filters m @ filterChain,
               inputs = inputs m @ [up_path uploadedFile],
               audioInputs = audioInputs m @ [L_a_out n],
               inputIndex = n + 1\<rparr>))"

text \<open>Lines 651-677.\<close>

definition mixTracks :: "ExportEnv \<Rightarrow> Timeline \<Rightarrow> nat \<Rightarrow> mix" where
  "mixTracks env timelineData totalClips =
     fold (\<lambda>track m. fold (mixClip env track) (clips track) m)
       (case audioTracks timelineData of None \<Rightarrow> [] | Some ts \<Rightarrow> ts)
       \<lparr>mix_filters = [], inputs = [], audioInputs = [L_a_final], inputIndex = totalClips\<rparr>"

text \<open>Lines 679-683.\<close>

definition mixOutput :: "label list \<Rightarrow> filt" where
  "mixOutput ins =
     (if length ins > 1 then Amix ins (length ins) amix_first 2 L_a_mixed
      else Anull L_a_final L_a_mixed)"

section \<open>POST /export: the compiler\<close>

record export_plan =
  plan_filterComplex :: "filt list"
  plan_inputData :: "InputData list"
  plan_inputs :: "string list"
  plan_chainEnd :: real

text \<open>
  Lines 399-683: what the handler has built when it starts the encoder, or the error it
  throws before. The encoder is given \<open>plan_filterComplex\<close> as its filter graph and maps
  \<open>[v_final]\<close> and \<open>[a_mixed]\<close> to the output.
\<close>

definition export_compile :: "ExportEnv \<Rightarrow> Timeline \<Rightarrow> export_error + export_plan" where
  "export_compile env timelineData =
     (if layout timelineData \<noteq> solo \<or> length (videoTracks timelineData) \<noteq> 1
      then Inl UnsupportedLayout
      else
        (let track = hd (videoTracks timelineData)
         in if length (clips track) = 0 then Inl NoClips
            else
              (case prepareInputs env track 0 (clips track) of
                 Inl e \<Rightarrow> Inl e
               | Inr (inputData, filters) \<Rightarrow>
                   (let st = transitionChain (clips track) filters;
                        m = mixTracks env timelineData (length (clips track))
                    in Inr \<lparr>plan_filterComplex =
                               filterComplex st @ mix_filters m @ [mixOutput (audioInputs m)],
                             plan_inputData = inputData,
                             plan_inputs = inputs m,
                             plan_chainEnd = currentChainEnd st\<rparr>))))"

section \<open>The filter graph as text\<close>

text \<open>
  The strings of \<open>filterComplex\<close>, template by template. How JavaScript prints a number
  is not part of the repository: \<open>num\<close> stands for the conversion a template literal
  applies to a number and \<open>toFixed\<close> for \<open>Number.prototype.toFixed\<close>. Indices are
  natural numbers and print in decimal.
\<close>

record number_format =
  num :: "real \<Rightarrow> string"
  toFixed :: "nat \<Rightarrow> real \<Rightarrow> string"

fun show_nat :: "nat \<Rightarrow> string" where
  "show_nat n =
     (if n < 10 then [''0123456789'' ! n]
      else show_nat (n div 10) @ [''0123456789'' ! (n mod 10)])"

declare show_nat.simps [simp del]

fun join :: "string \<Rightarrow> string list \<Rightarrow> string" where
  "join sep [] = []"
| "join sep [s] = s"
| "join sep (s # t # ts) = s @ sep @ join sep (t # ts)"

fun render_label :: "label \<Rightarrow> string" where
  "render_label (L_v i) = ''v'' @ show_nat i"
| "render_label (L_a i) = ''a'' @ show_nat i"
| "render_label (L_a_raw i) = ''a'' @ show_nat i @ ''_raw''"
| "render_label (L_vm i) = ''vm'' @ show_nat i"
| "render_label (L_am i) = ''am'' @ show_nat i"
| "render_label L_v0_faded = ''v0_faded''"
| "render_label L_a0_faded = ''a0_faded''"
| "render_label L_v_final_faded = ''v_final_faded''"
| "render_label L_a_final_faded = ''a_final_faded''"
| "render_label L_v_final = ''v_final''"
| "render_label L_a_final = ''a_final''"
| "render_label (L_a_trim i) = ''a'' @ show_nat i @ ''_trim''"
| "render_label (L_a_delay i) = ''a'' @ show_nat i @ ''_delay''"
| "render_label (L_a_vol i) = ''a'' @ show_nat i @ ''_vol''"
| "render_label (L_a_out i) = ''a'' @ show_nat i @ ''_out''"
| "render_label L_a_mixed = ''a_mixed''"

definition pad :: "label \<Rightarrow> string" where
  "pad l = ''['' @ render_label l @ '']''"

text \<open>The comma between the arguments of \<open>max\<close> and \<open>min\<close> is escaped with a backslash.\<close>

fun render_expr :: "number_format \<Rightarrow> expr \<Rightarrow> string" where
  "render_expr nf (Lit n) = show_nat n"
| "render_expr nf (Num r) = num nf r"
| "render_expr nf IW = ''iw''"
| "render_expr nf IH = ''ih''"
| "render_expr nf (Paren e) = ''('' @ render_expr nf e @ '')''"
| "render_expr nf (Sub a b) = render_expr nf a @ ''-'' @ render_expr nf b"
| "render_expr nf (Mul a b) = render_expr nf a @ ''*'' @ render_expr nf b"
| "render_expr nf (Div a b) = render_expr nf a @ ''/'' @ render_expr nf b"
| "render_expr nf (Max a b) =
     ''max('' @ render_expr nf a @ [CHR 0x5C] @ '','' @ render_expr nf b @ '')''"
| "render_expr nf (Min a b) =
     ''min('' @ render_expr nf a @ [CHR 0x5C] @ '','' @ render_expr nf b @ '')''"

fun render_eq_param :: "number_format \<Rightarrow> eq_param \<Rightarrow> string" where
  "render_eq_param nf (Brightness v) = ''brightness='' @ toFixed nf 3 v"
| "render_eq_param nf (Contrast v) = ''contrast='' @ toFixed nf 3 v"
| "render_eq_param nf (Saturation v) = ''saturation='' @ toFixed nf 3 v"

fun render_vstage :: "number_format \<Rightarrow> vstage \<Rightarrow> string" where
  "render_vstage nf (VTrim s d) = ''trim=start='' @ num nf s @ '':duration='' @ num nf d"
| "render_vstage nf VSetptsStart = ''setpts=PTS-STARTPTS''"
| "render_vstage nf (VScaleCover w h) =
     ''scale='' @ show_nat w @ '':'' @ show_nat h @ '':force_original_aspect_ratio=increase''"
| "render_vstage nf (VCrop w h x y) =
     ''crop='' @ show_nat w @ '':'' @ show_nat h @ '':'' @ render_expr nf x
       @ '':'' @ render_expr nf y"
| "render_vstage nf (VSetsar n) = ''setsar='' @ show_nat n"
| "render_vstage nf (VFps n) = ''fps='' @ show_nat n"
| "render_vstage nf VFormatYuv420p = ''format=yuv420p''"
| "render_vstage nf (VEq ps) = ''eq='' @ join '':'' (map (render_eq_param nf) ps)"
| "render_vstage nf (VUnsharp a) = ''unsharp=5:5:'' @ toFixed nf 2 a @ '':5:5:0.0''"

fun render_color :: "fade_color \<Rightarrow> string" where
  "render_color black = ''black''"
| "render_color white = ''white''"

fun render_xfade :: "xfade_name \<Rightarrow> string" where
  "render_xfade fade = ''fade''"
| "render_xfade pixelize = ''pixelize''"
| "render_xfade fadeblack = ''fadeblack''"
| "render_xfade fadewhite = ''fadewhite''"

fun render_amix_duration :: "amix_duration \<Rightarrow> string" where
  "render_amix_duration amix_longest = ''longest''"
| "render_amix_duration amix_shortest = ''shortest''"
| "render_amix_duration amix_first = ''first''"

fun render :: "number_format \<Rightarrow> filt \<Rightarrow> string" where
  "render nf (ClipVideo i stages) =
     ''['' @ show_nat i @ '':v]'' @ join '','' (map (render_vstage nf) stages) @ pad (L_v i)"
| "render nf (SilentAudio i d v) =
     ''anullsrc=channel_layout=stereo:sample_rate=48000:duration='' @ num nf d
       @ pad (L_a_raw i) @ '';'' @ pad (L_a_raw i) @ ''volume='' @ num nf v @ pad (L_a i)"
| "render nf (ClipAudio i s d v) =
     ''['' @ show_nat i @ '':a]atrim=start='' @ num nf s @ '':duration='' @ num nf d
       @ '',asetpts=PTS-STARTPTS,aresample=48000,volume='' @ num nf v @ pad (L_a i)"
| "render nf (FadeIn l d c out) =
     pad l @ ''fade=t=in:st=0:d='' @ num nf d @ '':color='' @ render_color c @ pad out"
| "render nf (AFadeIn l d out) = pad l @ ''afade=t=in:st=0:d='' @ num nf d @ pad out"
| "render nf (Xfade l n t d off out) =
     pad l @ pad n @ ''xfade=transition='' @ render_xfade t @ '':duration='' @ num nf d
       @ '':offset='' @ num nf off @ pad out"
| "render nf (Acrossfade l n d out) =
     pad l @ pad n @ ''acrossfade=d='' @ num nf d @ '':c1=tri:c2=tri'' @ pad out"
| "render nf (ConcatV l n out) = pad l @ pad n @ ''concat=n=2:v=1:a=0'' @ pad out"
| "render nf (ConcatA l n out) = pad l @ pad n @ ''concat=n=2:v=0:a=1'' @ pad out"
| "render nf (FadeOut l st d c out) =
     pad l @ ''fade=t=out:st='' @ num nf st @ '':d='' @ num nf d @ '':color=''
       @ render_color c @ pad out"
| "render nf (AFadeOut l st d out) =
     pad l @ ''afade=t=out:st='' @ num nf st @ '':d='' @ num nf d @ pad out"
| "render nf (NullV l out) = pad l @ ''null'' @ pad out"
| "render nf (Aresample l out) = pad l @ ''aresample=48000'' @ pad out"
| "render nf (Atrim n s d out) =
     ''['' @ show_nat n @ '':a]atrim=start='' @ num nf s @ '':duration='' @ num nf d @ pad out"
| "render nf (Adelay l d out) = pad l @ ''adelay='' @ num nf d @ ''|'' @ num nf d @ pad out"
| "render nf (Volume l v out) = pad l @ ''volume='' @ num nf v @ pad out"
| "render nf (Amix ins n mode dt out) =
     concat (map pad ins) @ ''amix=inputs='' @ show_nat n @ '':duration=''
       @ render_amix_duration mode @ '':dropout_transition='' @ show_nat dt @ pad out"
| "render nf (Anull l out) = pad l @ ''anull'' @ pad out"

section \<open>Sample inputs\<close>

text \<open>A clip with a trim window and nothing optional set, and an upload as multer stores it.\<close>

definition plainClip :: "string \<Rightarrow> real \<Rightarrow> real \<Rightarrow> Clip" where
  "plainClip mid s e =
     \<lparr>clip_id = mid, mediaFileId = mid, sourceStart = s, sourceEnd = e, timelineStart = 0,
      transitionStart = None, transitionEnd = None, reframeKeyframes = None,
      clip_volume = None, processedVideoUrl = None, colorGrading = None\<rparr>"

definition upload :: "string \<Rightarrow> string \<Rightarrow> UploadedFile" where
  "upload stamp mid =
     \<lparr>up_filename = stamp @ ''-'' @ mid, up_path = ''uploads/'' @ stamp @ ''-'' @ mid\<rparr>"

definition sampleEnv :: ExportEnv where
  "sampleEnv =
     \<lparr>registry = Map.empty, existsSync = (\<lambda>p. False),
      videos = [upload ''17'' ''m1'', upload ''17'' ''m2'', upload ''17'' ''song'']\<rparr>"

definition soloTimeline :: "Clip list \<Rightarrow> Clip list \<Rightarrow> Timeline" where
  "soloTimeline cs music =
     \<lparr>videoTracks = [\<lparr>clips = cs, track_volume = Some 1\<rparr>],
      audioTracks = Some [\<lparr>clips = music, track_volume = Some 1\<rparr>],
      layout = solo\<rparr>"

definition crossDissolve :: "real \<Rightarrow> Transition" where
  "crossDissolve d = \<lparr>ttype = cross_dissolve, tduration = d\<rparr>"

text \<open>
  Two clips of \<open>len\<close> seconds each, the first ending in a cross-dissolve of \<open>d\<close>
  seconds.
\<close>

definition twoClips :: "real \<Rightarrow> real \<Rightarrow> Clip list" where
  "twoClips len d =
     [(plainClip ''m1'' 0 len)\<lparr>transitionEnd := Some (crossDissolve d)\<rparr>,
      plainClip ''m2'' 0 len]"

text \<open>The step 1 filters of a clip with nothing optional set, at volume 1.\<close>

definition plainFilters :: "nat \<Rightarrow> real \<Rightarrow> real \<Rightarrow> filt list" where
  "plainFilters i s e =
     [ClipVideo i ([VTrim s (e - s), VSetptsStart] @ centerCrop
                   @ [VSetsar 1, VFps 30, VFormatYuv420p]),
      ClipAudio i s (e - s) 1]"

section \<open>Reading the filter graph\<close>

text \<open>
  The length of the stream an \<open>amix\<close> filter puts out, from the lengths of its inputs
  in order, as the encoder documents the three values of its \<open>duration\<close> option: the
  longest input, the shortest input, or the first input.
\<close>

definition amix_length :: "amix_duration \<Rightarrow> real list \<Rightarrow> real" where
  "amix_length mode ds =
     (case mode of
        amix_longest \<Rightarrow> fold max ds (hd ds)
      | amix_shortest \<Rightarrow> fold min ds (hd ds)
      | amix_first \<Rightarrow> hd ds)"

text \<open>
  The clips of the audio tracks for which an upload is found, in the order the handler
  visits them, each with its track; and the four filters lines 664-669 push for such a
  clip when it is given input index \<open>n\<close>.
\<close>

definition musicTracks :: "Timeline \<Rightarrow> Track list" where
  "musicTracks timelineData = (case audioTracks timelineData of None \<Rightarrow> [] | Some ts \<Rightarrow> ts)"

definition resolvedMusic :: "ExportEnv \<Rightarrow> Timeline \<Rightarrow> (Track \<times> Clip) list" where
  "resolvedMusic env timelineData =
     concat (map (\<lambda>track. map (Pair track)
                    (filter (\<lambda>clip. findUpload env clip \<noteq> None) (clips track)))
                 (musicTracks timelineData))"

definition musicChain :: "nat \<Rightarrow> Track \<Rightarrow> Clip \<Rightarrow> filt list" where
  "musicChain n track clip =
     [Atrim n (sourceStart clip) (sourceEnd clip - sourceStart clip) (L_a_trim n),
      Adelay (L_a_trim n) (timelineStart clip * 1000) (L_a_delay n),
      Volume (L_a_delay n)
        ((case track_volume track of None \<Rightarrow> 1 | Some v \<Rightarrow> v)
         * (case clip_volume clip of None \<Rightarrow> 1 | Some v \<Rightarrow> v))
        (L_a_vol n),
      Aresample (L_a_vol n) (L_a_out n)]"

fun musicChains :: "nat \<Rightarrow> (Track \<times> Clip) list \<Rightarrow> filt list" where
  "musicChains n [] = []"
| "musicChains n ((track, clip) # rest) = musicChain n track clip @ musicChains (Suc n) rest"

text \<open>
  Two requests resolve the media of a timeline alike when every clip of the video tracks
  is found by both or by neither, with paths that are images for both or for neither, and
  every clip of the audio tracks has an upload in both or in neither. The paths themselves,
  which carry the generated upload names, may differ.
\<close>

definition sameMedia :: "ExportEnv \<Rightarrow> ExportEnv \<Rightarrow> Timeline \<Rightarrow> bool" where
  "sameMedia env1 env2 timelineData =
     (list_all (\<lambda>clip. rel_option (\<lambda>p q. (p = []) = (q = []) \<and> isImage p = isImage q)
                         (getVideoPath env1 clip) (getVideoPath env2 clip))
        (concat (map clips (videoTracks timelineData))) \<and>
      list_all (\<lambda>clip. (findUpload env1 clip = None) = (findUpload env2 clip = None))
        (concat (map clips (musicTracks timelineData))))"

text \<open>
  What a compilation leaves for the encoder's filter graph: the error, or the filter list
  with the final chain end.
\<close>

definition graphOf :: "export_error + export_plan \<Rightarrow> export_error + (filt list \<times> real)" where
  "graphOf r = map_sum id (\<lambda>plan. (plan_filterComplex plan, plan_chainEnd plan)) r"

text \<open>More sample inputs: a second request with other upload names, and keyframes.\<close>

definition sampleEnv2 :: ExportEnv where
  "sampleEnv2 =
     \<lparr>registry = Map.empty, existsSync = (\<lambda>p. False),
      videos = [upload ''18'' ''m1'', upload ''18'' ''m2'', upload ''18'' ''song'']\<rparr>"

definition keyframeAt :: "real \<Rightarrow> ReframeKeyframe" where
  "keyframeAt px = \<lparr>kf_time = 0, kf_x = px, kf_y = 1 / 2, kf_scale = 1\<rparr>"

text \<open>The labels \<open>a{n}_out\<close>, \<open>a{n+1}_out\<close>, ... of \<open>k\<close> consecutive music inputs.\<close>

fun outLabels :: "nat \<Rightarrow> nat \<Rightarrow> label list" where
  "outLabels n 0 = []"
| "outLabels n (Suc k) = L_a_out n # outLabels (Suc n) k"

text \<open>One clip of 10 s on the video track and a song of 3 s on an audio track.\<close>

definition musicTimeline :: Timeline where
  "musicTimeline = soloTimeline [plainClip ''m1'' 0 10] [plainClip ''song'' 0 3]"

text \<open>A filter that is not a video cross-fade at a negative offset.\<close>

definition nonneg_offset :: "filt \<Rightarrow> bool" where
  "nonneg_offset f = (case f of Xfade l n t d off out \<Rightarrow> 0 \<le> off | _ \<Rightarrow> True)"

section \<open>Properties of the audio tempo filter\<close>

lemma tempo_factors_audioFilter:
  "tempo_factors (audioFilter speedNum) =
     (if speedNum = 0.5 then [0.5]
      else if speedNum = 0.25 then [0.5, 0.5]
      else if speedNum = 2 then [2]
      else if speedNum < 0.5 then [0.5, 0.5]
      else if speedNum > 2 then [2]
      else [speedNum])"
  by (simp add: audioFilter_def)

text \<open>
  C6, as stated, fails: at speed 4 the chain is the single stage \<open>atempo=2.0\<close>, whose
  product is 2, not the requested 4.
\<close>

theorem audioFilter_product_counterexample:
  "tempo_product (audioFilter 4) \<noteq> 4"
  by (simp add: tempo_product_def tempo_factors_audioFilter)

text \<open>
  C6, amended: for every speed factor every atempo stage of the generated chain has its
  factor in [0.5, 2.0], and the product of the stages is the requested speed clamped from
  below to 0.25 for speeds under 0.5 and from above to 2 for speeds over 2; so the product
  equals the requested speed exactly for 0.5 \<open>\<le>\<close> speed \<open>\<le>\<close> 2 and for speed 0.25.
\<close>

theorem audioFilter_stages_in_range_and_product:
  "list_all (\<lambda>f. 1 / 2 \<le> f \<and> f \<le> 2) (tempo_factors (audioFilter speedNum)) \<and>
   tempo_product (audioFilter speedNum) =
     (if speedNum < 1 / 2 then 1 / 4 else if 2 < speedNum then 2 else speedNum)"
  by (auto simp add: tempo_product_def tempo_factors_audioFilter)

section \<open>Properties of the job registry\<close>

text \<open>
  The process-video progress handler clamps and is guarded: while the job is processing
  it writes a value in [0, 99], and it leaves a finished job alone.
\<close>

lemma pv_on_progress_clamped:
  assumes "pv_on_progress jobId d tm js jobId = Some job'" and "js jobId = Some job"
    and "status job = Processing" and "tm \<noteq> None"
  shows "0 \<le> progress job' \<and> progress job' \<le> 99 \<and> status job' = Processing"
  using assms by (auto simp add: pv_on_progress_def Let_def split: option.splits prod.splits)

lemma pv_on_progress_terminal:
  assumes "js jobId = Some job" and "status job \<noteq> Processing"
  shows "pv_on_progress jobId d tm js = js"
  using assms by (cases "status job") (auto simp add: pv_on_progress_def)

text \<open>
  C3 at a failing input: an export job is created and the encoder reports
  \<open>percent = 150\<close>. The export progress handler stores 150 while the status is still
  \<open>processing\<close>; the claim bounds every such value by 99.
\<close>

theorem export_progress_unclamped:
  "(let js = ex_on_progress ''1'' (Some 150)
               (ex_create ''1'' ''exports/export.mp4'' ''export.mp4'' Map.empty)
    in map_option status (js ''1'') = Some Processing \<and>
       map_option progress (js ''1'') = Some 150)"
  by (simp add: ex_on_progress_def ex_create_def)

text \<open>
  C4 at a failing input: an export job completes (status \<open>done\<close>, progress 100) and a
  progress event with \<open>percent = 42\<close> is handled afterwards. The export progress handler
  has no status test and sets the progress of the finished job to 42.
\<close>

theorem export_progress_overwrites_done:
  "(let js0 = ex_on_complete ''1''
                (ex_create ''1'' ''exports/export.mp4'' ''export.mp4'' Map.empty);
        js1 = ex_on_progress ''1'' (Some 42) js0
    in map_option status (js0 ''1'') = Some Done \<and>
       map_option progress (js0 ''1'') = Some 100 \<and>
       map_option status (js1 ''1'') = Some Done \<and>
       map_option progress (js1 ''1'') = Some 42)"
  by (simp add: ex_on_progress_def ex_on_complete_def ex_create_def)

text \<open>The completion and error handlers are not guarded either.\<close>

lemma pv_end_overwrites_error:
  "(let js0 = pv_on_error ''1'' ''boom'' (pv_create ''1'' ''o'' ''i'' ''f'' Map.empty);
        js1 = pv_on_end ''1'' js0
    in map_option status (js0 ''1'') = Some Error \<and>
       map_option status (js1 ''1'') = Some Done)"
  by (simp add: pv_on_end_def pv_on_error_def pv_create_def)

section \<open>Properties of the export progress stream\<close>

lemma pv_step_not_export: "not_export js jobId \<Longrightarrow> not_export (pv_step jobId ev js) jobId"
  by (cases ev)
     (auto simp add: not_export_def pv_on_progress_def pv_on_end_def pv_on_error_def Let_def
           split: option.splits prod.splits)

lemma pv_fold_not_export:
  "not_export js jobId \<Longrightarrow> not_export (fold (pv_step jobId) evs js) jobId"
  by (induction evs arbitrary: js) (simp_all add: pv_step_not_export)

lemma pv_create_not_export: "not_export (pv_create jobId p i f js) jobId"
  by (simp add: not_export_def pv_create_def)

lemma sendUpdate_not_export:
  "not_export js jobId \<Longrightarrow>
   export_sendUpdate js jobId res =
     res_end (res_write (ErrorEvent ''Export not found'') res)"
  by (auto simp add: not_export_def export_sendUpdate_def split: option.splits)

lemma sendUpdate_ended:
  "ended res \<Longrightarrow> export_sendUpdate js jobId res = res"
  by (auto simp add: export_sendUpdate_def res_write_def res_end_def Let_def
           split: option.splits)

lemma fold_sendUpdate_ended:
  "ended res \<Longrightarrow> fold (\<lambda>js res. export_sendUpdate js jobId res) later res = res"
  by (induction later) (simp_all add: sendUpdate_ended)

text \<open>
  C10: take any registry, create a job with POST /process-video under \<open>jobId\<close>, and let
  the job see any events \<open>evs\<close> before the query and any further events before each
  later tick. The export progress stream for \<open>jobId\<close> then carries exactly one event,
  the error \<open>Export not found\<close>, and is closed, although the registry holds the job.
\<close>

theorem export_progress_of_process_video_job:
  "export_progress
     (fold (pv_step jobId) evs (pv_create jobId outPath inPath outName js))
     (map (\<lambda>more. fold (pv_step jobId) (evs @ more)
                     (pv_create jobId outPath inPath outName js)) mores)
     jobId
   = \<lparr>events = [ErrorEvent ''Export not found''], ended = True\<rparr>"
proof -
  let ?first = "fold (pv_step jobId) evs (pv_create jobId outPath inPath outName js)"
  have "not_export ?first jobId"
    by (rule pv_fold_not_export) (rule pv_create_not_export)
  then have first: "export_sendUpdate ?first jobId fresh_response
      = \<lparr>events = [ErrorEvent ''Export not found''], ended = True\<rparr>"
    by (simp add: sendUpdate_not_export res_write_def res_end_def fresh_response_def)
  show ?thesis
    unfolding export_progress_def first
    by (rule fold_sendUpdate_ended) simp
qed

section \<open>Properties of the transition chain\<close>

lemma middleStep_filters_grow:
  "set (filterComplex st) \<subseteq> set (filterComplex (middleStep i c n st))"
  by (auto simp add: middleStep_def Let_def split: prod.splits)

lemma middleTransitions_filters_grow:
  "set (filterComplex st) \<subseteq> set (filterComplex (middleTransitions i cs st))"
proof (induction i cs st rule: middleTransitions.induct)
  case (1 i clip nextClip rest st)
  have "set (filterComplex st) \<subseteq> set (filterComplex (middleStep i clip nextClip st))"
    by (rule middleStep_filters_grow)
  also note "1.IH"
  finally show ?case by simp
qed simp_all

lemma middleTransitions_take_single: "middleTransitions i (take n [v]) st = st"
  by (cases n) simp_all

lemma middleTransitions_take_filters:
  "set (filterComplex (middleTransitions i (take n cs) st))
     \<subseteq> set (filterComplex (middleTransitions i cs st))"
proof (induction i cs st arbitrary: n rule: middleTransitions.induct)
  case (1 i clip nextClip rest st)
  show ?case
  proof (cases n)
    case 0
    then show ?thesis using middleTransitions_filters_grow [of st i "clip # nextClip # rest"]
      by simp
  next
    case (Suc m)
    show ?thesis
    proof (cases m)
      case 0
      with Suc have "take n (clip # nextClip # rest) = [clip]" by simp
      then show ?thesis
        using middleTransitions_filters_grow [of st i "clip # nextClip # rest"] by simp
    next
      case (Suc j)
      with \<open>n = Suc m\<close> have n: "n = Suc (Suc j)" by simp
      have "middleTransitions i (take n (clip # nextClip # rest)) st =
            middleTransitions (Suc i) (take (Suc j) (nextClip # rest))
              (middleStep i clip nextClip st)"
        unfolding n by simp
      then show ?thesis using "1.IH" [of "Suc j"] by simp
    qed
  qed
qed (simp_all add: middleTransitions_take_single)

lemma middleTransitions_take_Suc:
  "Suc k < length cs \<Longrightarrow>
   middleTransitions i (take (Suc (Suc k)) cs) st =
     middleStep (i + k) (cs ! k) (cs ! Suc k) (middleTransitions i (take (Suc k) cs) st)"
proof (induction k arbitrary: cs i st)
  case 0
  then obtain a b rest where "cs = a # b # rest"
    by (cases cs; cases "tl cs") auto
  then show ?case by simp
next
  case (Suc k)
  then obtain a b rest where cs: "cs = a # b # rest"
    by (cases cs; cases "tl cs") auto
  with Suc.prems have "Suc k < length (b # rest)" by simp
  from Suc.IH [OF this, of "Suc i" "middleStep i a b st"] show ?case
    unfolding cs by simp
qed

lemma chainAt_Suc:
  assumes "Suc k < length cs"
  shows "chainAt cs filters (Suc k) = middleStep k (cs ! k) (cs ! Suc k) (chainAt cs filters k)"
proof -
  have "middleTransitions 0 (take (Suc (Suc k)) cs) (chainStart cs filters) =
     middleStep (0 + k) (cs ! k) (cs ! Suc k)
       (middleTransitions 0 (take (Suc k) cs) (chainStart cs filters))"
    by (rule middleTransitions_take_Suc [OF assms])
  then show ?thesis unfolding chainAt_def by simp
qed

lemma endTransition_filters_grow:
  "set (filterComplex st) \<subseteq> set (filterComplex (endTransition c st))"
  by (auto simp add: endTransition_def Let_def split: option.splits)

lemma finalOutputs_filters_grow:
  "set (filterComplex st) \<subseteq> set (filterComplex (finalOutputs st))"
  by (auto simp add: finalOutputs_def)

lemma chainAt_filters_in_transitionChain:
  "set (filterComplex (chainAt cs filters k))
     \<subseteq> set (filterComplex (transitionChain cs filters))"
proof -
  have "set (filterComplex (chainAt cs filters k))
          \<subseteq> set (filterComplex (middleTransitions 0 cs (chainStart cs filters)))"
    unfolding chainAt_def by (rule middleTransitions_take_filters)
  also have "\<dots> \<subseteq> set (filterComplex
                 (endTransition (last cs) (middleTransitions 0 cs (chainStart cs filters))))"
    by (rule endTransition_filters_grow)
  also have "\<dots> \<subseteq> set (filterComplex (transitionChain cs filters))"
    unfolding transitionChain_def by (rule finalOutputs_filters_grow)
  finally show ?thesis .
qed

lemmas sample_defs = plainClip_def upload_def sampleEnv_def soloTimeline_def crossDissolve_def
  twoClips_def plainFilters_def

lemma getVideoPath_sample:
  "getVideoPath sampleEnv (plainClip ''m1'' s e\<lparr>transitionEnd := x\<rparr>) = Some ''uploads/17-m1''"
  "getVideoPath sampleEnv (plainClip ''m1'' s e) = Some ''uploads/17-m1''"
  "getVideoPath sampleEnv (plainClip ''m2'' s e) = Some ''uploads/17-m2''"
  by (simp_all add: getVideoPath_def findUpload_def sample_defs)

lemma not_image_sample: "\<not> isImage ''uploads/17-m1''" "\<not> isImage ''uploads/17-m2''"
  by (simp_all add: isImage_def ends_with_def lower_char_def)

lemma prepareInputs_twoClips:
  "prepareInputs sampleEnv \<lparr>clips = twoClips len d, track_volume = Some 1\<rparr> 0 (twoClips len d) =
     Inr ([\<lparr>in_path = ''uploads/17-m1'', in_isImage = False, in_duration = len\<rparr>,
           \<lparr>in_path = ''uploads/17-m2'', in_isImage = False, in_duration = len\<rparr>],
          plainFilters 0 0 len @ plainFilters 1 0 len)"
  unfolding twoClips_def
  by (simp add: getVideoPath_sample not_image_sample vFilter_def aFilter_def plainFilters_def)
     (simp add: plainClip_def)

lemma mixTracks_no_music:
  "mixTracks env (soloTimeline cs []) n =
     \<lparr>mix_filters = [], inputs = [], audioInputs = [L_a_final], inputIndex = n\<rparr>"
  by (simp add: mixTracks_def soloTimeline_def)

lemma export_compile_plan:
  assumes "export_compile env timelineData = Inr plan"
  shows "\<exists>inputData filters.
           prepareInputs env (hd (videoTracks timelineData)) 0
             (clips (hd (videoTracks timelineData))) = Inr (inputData, filters) \<and>
           clips (hd (videoTracks timelineData)) \<noteq> [] \<and>
           layout timelineData = solo \<and> length (videoTracks timelineData) = 1 \<and>
           plan_filterComplex plan =
             filterComplex (transitionChain (clips (hd (videoTracks timelineData))) filters)
             @ mix_filters (mixTracks env timelineData
                              (length (clips (hd (videoTracks timelineData)))))
             @ [mixOutput (audioInputs (mixTracks env timelineData
                              (length (clips (hd (videoTracks timelineData))))))] \<and>
           plan_chainEnd plan =
             currentChainEnd (transitionChain (clips (hd (videoTracks timelineData))) filters)"
  using assms
  by (auto simp add: export_compile_def Let_def split: if_splits sum.splits prod.splits)

lemma chain_filters_in_plan:
  assumes compiled: "export_compile env timelineData = Inr plan"
      and cs: "cs = clips (hd (videoTracks timelineData))"
      and filters: "prepareInputs env (hd (videoTracks timelineData)) 0 cs = Inr (inputData, filters)"
  shows "set (filterComplex (transitionChain cs filters)) \<subseteq> set (plan_filterComplex plan)"
proof -
  from export_compile_plan [OF compiled] obtain inputData' filters' where
    a: "prepareInputs env (hd (videoTracks timelineData)) 0
             (clips (hd (videoTracks timelineData))) = Inr (inputData', filters')"
    and b: "plan_filterComplex plan =
             filterComplex (transitionChain (clips (hd (videoTracks timelineData))) filters')
             @ mix_filters (mixTracks env timelineData
                              (length (clips (hd (videoTracks timelineData)))))
             @ [mixOutput (audioInputs (mixTracks env timelineData
                              (length (clips (hd (videoTracks timelineData))))))]"
    by blast
  from a filters have "filters' = filters" unfolding cs by simp
  with b show ?thesis unfolding cs by auto
qed

lemma resolveTransition_cases:
  assumes "(transitionEnd clip = Some t \<and> 0 < tduration t) \<or>
           (\<not> hasTransition (transitionEnd clip) \<and>
            transitionStart nextClip = Some t \<and> 0 < tduration t)"
  shows "resolveTransition clip nextClip = (Some (ttype t), tduration t)"
  using assms by (auto simp add: resolveTransition_def hasTransition_def)

lemma middleStep_crossfade:
  assumes "resolveTransition clip nextClip = (Some ty, d)" and "0 < d"
      and "0 \<le> currentChainEnd st - d"
  shows "middleStep i clip nextClip st =
     st\<lparr>filterComplex := filterComplex st @
           [Xfade (lastV st) (L_v (i + 1)) (xfadeMap ty) d (currentChainEnd st - d) (L_vm (i + 1)),
            Acrossfade (lastA st) (L_a (i + 1)) d (L_am (i + 1))],
        lastV := L_vm (i + 1),
        lastA := L_am (i + 1),
        currentChainEnd := currentChainEnd st - d + (sourceEnd nextClip - sourceStart nextClip)\<rparr>"
  using assms by (simp add: middleStep_def Let_def)

text \<open>
  C1: take a solo-layout timeline that compiles, and a middle boundary between clip \<open>k\<close>
  and clip \<open>k + 1\<close> at which a transition \<open>t\<close> of positive duration is resolved, the
  end transition of clip \<open>k\<close> first and the start transition of clip \<open>k + 1\<close>
  otherwise. If the chain end reached at that boundary is at least the duration of \<open>t\<close>,
  the loop emits a video cross-fade at offset chain end minus duration and an audio
  cross-fade of the same duration, both of which are in the filter graph of the plan, makes
  their outputs the running streams, and sets the chain end to the offset plus
  \<open>sourceEnd - sourceStart\<close> of clip \<open>k + 1\<close>.
\<close>

theorem middle_boundary_crossfade:
  assumes compiled: "export_compile env timelineData = Inr plan"
      and cs: "cs = clips (hd (videoTracks timelineData))"
      and filters: "prepareInputs env (hd (videoTracks timelineData)) 0 cs = Inr (inputData, filters)"
      and k: "Suc k < length cs"
      and t: "(transitionEnd (cs ! k) = Some t \<and> 0 < tduration t) \<or>
              (\<not> hasTransition (transitionEnd (cs ! k)) \<and>
               transitionStart (cs ! Suc k) = Some t \<and> 0 < tduration t)"
      and st: "st = chainAt cs filters k"
      and off: "0 \<le> currentChainEnd st - tduration t"
  shows "chainAt cs filters (Suc k) =
           st\<lparr>filterComplex := filterComplex st @
                 [Xfade (lastV st) (L_v (k + 1)) (xfadeMap (ttype t)) (tduration t)
                        (currentChainEnd st - tduration t) (L_vm (k + 1)),
                  Acrossfade (lastA st) (L_a (k + 1)) (tduration t) (L_am (k + 1))],
              lastV := L_vm (k + 1),
              lastA := L_am (k + 1),
              currentChainEnd := currentChainEnd st - tduration t
                                 + (sourceEnd (cs ! Suc k) - sourceStart (cs ! Suc k))\<rparr>
         \<and> Xfade (lastV st) (L_v (k + 1)) (xfadeMap (ttype t)) (tduration t)
                  (currentChainEnd st - tduration t) (L_vm (k + 1))
             \<in> set (plan_filterComplex plan)
         \<and> Acrossfade (lastA st) (L_a (k + 1)) (tduration t) (L_am (k + 1))
             \<in> set (plan_filterComplex plan)"
proof -
  let ?x = "Xfade (lastV st) (L_v (k + 1)) (xfadeMap (ttype t)) (tduration t)
                  (currentChainEnd st - tduration t) (L_vm (k + 1))"
  let ?a = "Acrossfade (lastA st) (L_a (k + 1)) (tduration t) (L_am (k + 1))"
  have d: "0 < tduration t" using t by blast
  have "middleStep k (cs ! k) (cs ! Suc k) st =
           st\<lparr>filterComplex := filterComplex st @ [?x, ?a],
              lastV := L_vm (k + 1),
              lastA := L_am (k + 1),
              currentChainEnd := currentChainEnd st - tduration t
                                 + (sourceEnd (cs ! Suc k) - sourceStart (cs ! Suc k))\<rparr>"
    by (rule middleStep_crossfade [OF resolveTransition_cases [OF t] d off])
  then have step: "chainAt cs filters (Suc k) =
           st\<lparr>filterComplex := filterComplex st @ [?x, ?a],
              lastV := L_vm (k + 1),
              lastA := L_am (k + 1),
              currentChainEnd := currentChainEnd st - tduration t
                                 + (sourceEnd (cs ! Suc k) - sourceStart (cs ! Suc k))\<rparr>"
    using chainAt_Suc [OF k, of filters] st by (simp only:)
  then have "filterComplex (chainAt cs filters (Suc k)) = filterComplex st @ [?x, ?a]"
    by simp
  then have "{?x, ?a} \<subseteq> set (filterComplex (chainAt cs filters (Suc k)))"
    by simp
  also have "\<dots> \<subseteq> set (filterComplex (transitionChain cs filters))"
    by (rule chainAt_filters_in_transitionChain)
  also have "\<dots> \<subseteq> set (plan_filterComplex plan)"
    by (rule chain_filters_in_plan [OF compiled cs filters])
  finally have mem: "?x \<in> set (plan_filterComplex plan)" "?a \<in> set (plan_filterComplex plan)"
    by simp_all
  from step mem show ?thesis by (intro conjI)
qed

lemma chainStart_twoClips:
  "chainStart (twoClips len d) fs =
     \<lparr>filterComplex = fs, lastV = L_v 0, lastA = L_a 0, currentChainEnd = len\<rparr>"
  by (simp add: chainStart_def startTransition_def twoClips_def plainClip_def)

lemma resolveTransition_twoClips:
  "0 < d \<Longrightarrow>
   resolveTransition (plainClip ''m1'' 0 len\<lparr>transitionEnd := Some (crossDissolve d)\<rparr>)
     (plainClip ''m2'' 0 len) = (Some cross_dissolve, d)"
  by (simp add: resolveTransition_def hasTransition_def crossDissolve_def)

lemma middleStep_fallback:
  assumes "resolveTransition clip nextClip = (Some ty, d)" and "0 < d"
      and "currentChainEnd st - d < 0"
  shows "middleStep i clip nextClip st =
     st\<lparr>filterComplex := filterComplex st @
           [ConcatV (lastV st) (L_v (i + 1)) (L_vm (i + 1)),
            ConcatA (lastA st) (L_a (i + 1)) (L_am (i + 1))],
        currentChainEnd := currentChainEnd st + (sourceEnd nextClip - sourceStart nextClip)\<rparr>"
  using assms by (simp add: middleStep_def Let_def)

lemma middleStep_no_transition:
  assumes "resolveTransition clip nextClip = (None, 0)"
  shows "middleStep i clip nextClip st =
     st\<lparr>filterComplex := filterComplex st @
           [ConcatV (lastV st) (L_v (i + 1)) (L_vm (i + 1)),
            ConcatA (lastA st) (L_a (i + 1)) (L_am (i + 1))],
        lastV := L_vm (i + 1),
        lastA := L_am (i + 1),
        currentChainEnd := currentChainEnd st + (sourceEnd nextClip - sourceStart nextClip)\<rparr>"
  using assms by (simp add: middleStep_def Let_def)

lemma transitionChain_twoClips_crossfade:
  assumes "0 < d" and "d \<le> len"
  shows "transitionChain (twoClips len d) fs =
     \<lparr>filterComplex = fs @
        [Xfade (L_v 0) (L_v 1) fade d (len - d) (L_vm 1),
         Acrossfade (L_a 0) (L_a 1) d (L_am 1),
         NullV (L_vm 1) L_v_final, Aresample (L_am 1) L_a_final],
      lastV = L_vm 1, lastA = L_am 1, currentChainEnd = len - d + len\<rparr>"
proof -
  have "middleTransitions 0 (twoClips len d) (chainStart (twoClips len d) fs) =
     \<lparr>filterComplex = fs @
        [Xfade (L_v 0) (L_v 1) fade d (len - d) (L_vm 1),
         Acrossfade (L_a 0) (L_a 1) d (L_am 1)],
      lastV = L_vm 1, lastA = L_am 1, currentChainEnd = len - d + len\<rparr>"
    unfolding chainStart_twoClips
    using assms
    by (simp add: twoClips_def
          middleStep_crossfade [OF resolveTransition_twoClips [OF assms(1)] assms(1)])
       (simp add: plainClip_def)
  then show ?thesis
    by (simp add: transitionChain_def finalOutputs_def endTransition_def twoClips_def
                  plainClip_def)
qed

lemma transitionChain_twoClips_fallback:
  assumes "0 < d" and "len < d"
  shows "transitionChain (twoClips len d) fs =
     \<lparr>filterComplex = fs @
        [ConcatV (L_v 0) (L_v 1) (L_vm 1),
         ConcatA (L_a 0) (L_a 1) (L_am 1),
         NullV (L_v 0) L_v_final, Aresample (L_a 0) L_a_final],
      lastV = L_v 0, lastA = L_a 0, currentChainEnd = len + len\<rparr>"
proof -
  have "middleTransitions 0 (twoClips len d) (chainStart (twoClips len d) fs) =
     \<lparr>filterComplex = fs @
        [ConcatV (L_v 0) (L_v 1) (L_vm 1),
         ConcatA (L_a 0) (L_a 1) (L_am 1)],
      lastV = L_v 0, lastA = L_a 0, currentChainEnd = len + len\<rparr>"
    unfolding chainStart_twoClips
    using assms
    by (simp add: twoClips_def
          middleStep_fallback [OF resolveTransition_twoClips [OF assms(1)] assms(1)])
       (simp add: plainClip_def)
  then show ?thesis
    by (simp add: transitionChain_def finalOutputs_def endTransition_def twoClips_def
                  plainClip_def)
qed

lemma export_compile_twoClips:
  "export_compile sampleEnv (soloTimeline (twoClips len d) []) =
     Inr \<lparr>plan_filterComplex =
            filterComplex (transitionChain (twoClips len d)
                             (plainFilters 0 0 len @ plainFilters 1 0 len))
            @ [Anull L_a_final L_a_mixed],
          plan_inputData =
            [\<lparr>in_path = ''uploads/17-m1'', in_isImage = False, in_duration = len\<rparr>,
             \<lparr>in_path = ''uploads/17-m2'', in_isImage = False, in_duration = len\<rparr>],
          plan_inputs = [],
          plan_chainEnd = currentChainEnd (transitionChain (twoClips len d)
                             (plainFilters 0 0 len @ plainFilters 1 0 len))\<rparr>"
proof -
  have tl: "layout (soloTimeline (twoClips len d) []) = solo"
      "videoTracks (soloTimeline (twoClips len d) [])
         = [\<lparr>clips = twoClips len d, track_volume = Some 1\<rparr>]"
    by (simp_all add: soloTimeline_def)
  have ne: "length (twoClips len d) = 2" "twoClips len d \<noteq> []"
    by (simp_all add: twoClips_def)
  show ?thesis
    unfolding export_compile_def tl
    by (simp add: ne prepareInputs_twoClips mixTracks_no_music mixOutput_def Let_def)
qed

text \<open>
  The scenario of the specification: two clips of 5 s with a cross-dissolve of 2 s give a
  cross-fade at offset 3 and a chain end of 8.
\<close>

lemma scenario_crossfade:
  "export_compile sampleEnv (soloTimeline (twoClips 5 2) []) =
     Inr \<lparr>plan_filterComplex =
            plainFilters 0 0 5 @ plainFilters 1 0 5 @
            [Xfade (L_v 0) (L_v 1) fade 2 3 (L_vm 1),
             Acrossfade (L_a 0) (L_a 1) 2 (L_am 1),
             NullV (L_vm 1) L_v_final, Aresample (L_am 1) L_a_final,
             Anull L_a_final L_a_mixed],
          plan_inputData =
            [\<lparr>in_path = ''uploads/17-m1'', in_isImage = False, in_duration = 5\<rparr>,
             \<lparr>in_path = ''uploads/17-m2'', in_isImage = False, in_duration = 5\<rparr>],
          plan_inputs = [],
          plan_chainEnd = 8\<rparr>"
  by (simp add: export_compile_twoClips transitionChain_twoClips_crossfade)

text \<open>
  C2 at a failing input: two clips of 1 s with a cross-dissolve of 2 s between them, the
  scenario of the specification. The offset 1 - 2 is negative, the two concat filters
  are pushed and the chain end becomes 2, but \<open>lastV\<close> and \<open>lastA\<close> are not moved to
  the outputs \<open>vm1\<close> and \<open>am1\<close> of the concatenation: the final streams \<open>v_final\<close> and
  \<open>a_final\<close> are fed from \<open>v0\<close> and \<open>a0\<close>, the first clip alone, and nothing
  reads \<open>vm1\<close> and \<open>am1\<close>.
\<close>

theorem fallback_leaves_next_clip_out:
  "export_compile sampleEnv (soloTimeline (twoClips 1 2) []) =
     Inr \<lparr>plan_filterComplex =
            plainFilters 0 0 1 @ plainFilters 1 0 1 @
            [ConcatV (L_v 0) (L_v 1) (L_vm 1),
             ConcatA (L_a 0) (L_a 1) (L_am 1),
             NullV (L_v 0) L_v_final, Aresample (L_a 0) L_a_final,
             Anull L_a_final L_a_mixed],
          plan_inputData =
            [\<lparr>in_path = ''uploads/17-m1'', in_isImage = False, in_duration = 1\<rparr>,
             \<lparr>in_path = ''uploads/17-m2'', in_isImage = False, in_duration = 1\<rparr>],
          plan_inputs = [],
          plan_chainEnd = 2\<rparr>"
  by (simp add: export_compile_twoClips transitionChain_twoClips_fallback)

text \<open>The same evaluation, read as the graph the encoder is given.\<close>

theorem fallback_leaves_next_clip_out_witness:
  "graphOf (export_compile sampleEnv (soloTimeline (twoClips 1 2) [])) =
     Inr (plainFilters 0 0 1 @ plainFilters 1 0 1 @
          [ConcatV (L_v 0) (L_v 1) (L_vm 1),
           ConcatA (L_a 0) (L_a 1) (L_am 1),
           NullV (L_v 0) L_v_final, Aresample (L_a 0) L_a_final,
           Anull L_a_final L_a_mixed], 2)"
  using fallback_leaves_next_clip_out by (simp add: graphOf_def)

text \<open>The hypotheses of C1 hold for two clips of 5 s joined by a cross-dissolve of 2 s.\<close>

theorem middle_boundary_crossfade_witness:
  "chainAt (twoClips 5 2) (plainFilters 0 0 5 @ plainFilters 1 0 5) (Suc 0) =
     \<lparr>filterComplex = plainFilters 0 0 5 @ plainFilters 1 0 5 @
        [Xfade (L_v 0) (L_v 1) fade 2 3 (L_vm 1), Acrossfade (L_a 0) (L_a 1) 2 (L_am 1)],
      lastV = L_vm 1, lastA = L_am 1, currentChainEnd = 8\<rparr>"
proof -
  let ?tl = "soloTimeline (twoClips 5 2) []"
  let ?fs = "plainFilters 0 0 5 @ plainFilters 1 0 5"
  let ?st = "\<lparr>filterComplex = ?fs, lastV = L_v 0, lastA = L_a 0, currentChainEnd = 5\<rparr>"
  note compiled = scenario_crossfade
  have cs: "twoClips 5 2 = clips (hd (videoTracks ?tl))"
    by (simp add: soloTimeline_def)
  have filters: "prepareInputs sampleEnv (hd (videoTracks ?tl)) 0 (twoClips 5 2) =
      Inr ([\<lparr>in_path = ''uploads/17-m1'', in_isImage = False, in_duration = 5\<rparr>,
            \<lparr>in_path = ''uploads/17-m2'', in_isImage = False, in_duration = 5\<rparr>], ?fs)"
    using prepareInputs_twoClips [of 5 2] by (simp add: soloTimeline_def)
  have k: "Suc 0 < length (twoClips 5 2)" by (simp add: twoClips_def)
  have t: "(transitionEnd (twoClips 5 2 ! 0) = Some (crossDissolve 2) \<and>
            0 < tduration (crossDissolve 2)) \<or>
           (\<not> hasTransition (transitionEnd (twoClips 5 2 ! 0)) \<and>
            transitionStart (twoClips 5 2 ! Suc 0) = Some (crossDissolve 2) \<and>
            0 < tduration (crossDissolve 2))"
    by (simp add: twoClips_def crossDissolve_def)
  have st: "?st = chainAt (twoClips 5 2) ?fs 0"
    by (simp add: chainAt_def chainStart_twoClips) (simp add: twoClips_def)
  have off: "0 \<le> currentChainEnd ?st - tduration (crossDissolve 2)"
    by (simp add: crossDissolve_def)
  from middle_boundary_crossfade [OF compiled cs filters k t st off]
  show ?thesis
    by (simp add: crossDissolve_def twoClips_def plainClip_def)
qed

section \<open>Properties of the reframe crop\<close>

lemma fold_kf_x:
  "fold (\<lambda>kf acc. acc + kf_x kf) keyframes a = a + sum_list (map kf_x keyframes)"
  by (induction keyframes arbitrary: a) simp_all

lemma avgX_mean: "avgX keyframes = sum_list (map kf_x keyframes) / real (length keyframes)"
  by (simp add: avgX_def fold_kf_x)

lemma eval_cropXExpr:
  "eval_expr iw ih (cropXExpr a) = max 0 (min (iw - 1080) (a * iw - 540))"
  by (simp add: cropXExpr_def)

lemma eval_cropYExpr: "eval_expr iw ih cropYExpr = (ih - 1920) / 2"
  by (simp add: cropYExpr_def)

lemma vFilter_reframed:
  assumes "reframeKeyframes clip = Some keyframes" and "keyframes \<noteq> []"
  shows "take 4 (vFilter clip) =
           [VTrim (sourceStart clip) (sourceEnd clip - sourceStart clip), VSetptsStart,
            VScaleCover 1080 1920,
            VCrop 1080 1920 (cropXExpr (avgX keyframes)) cropYExpr]"
  using assms by (simp add: vFilter_def)

lemma render_cropXExpr:
  "render_expr nf (cropXExpr a) =
     ''max(0'' @ [CHR 0x5C] @ '',min(iw-1080'' @ [CHR 0x5C] @ '',('' @ num nf a
       @ ''*iw)-(1080/2)))''"
  by (simp add: cropXExpr_def show_nat.simps)

text \<open>
  C9: the video chain of every clip with keyframes carries, as its fourth stage, the crop
  \<open>crop=1080:1920:max(0\,min(iw-1080\,(a*iw)-(1080/2))):(ih-1920)/2\<close> with \<open>a\<close> the
  average keyframe x. Whatever \<open>a\<close> is, inside [0, 1] or not, the x offset this
  expression gives on a frame at least 1080 wide, which is what the preceding
  scale-to-cover stage delivers, lies in [0, iw - 1080]: the window of width 1080 stays
  inside the frame.
\<close>

theorem crop_offset_clamped:
  assumes "reframeKeyframes clip = Some keyframes" and "keyframes \<noteq> []"
      and "1080 \<le> iw"
  shows "vFilter clip ! 3 = VCrop 1080 1920 (cropXExpr (avgX keyframes)) cropYExpr \<and>
         render_expr nf (cropXExpr (avgX keyframes)) =
           ''max(0'' @ [CHR 0x5C] @ '',min(iw-1080'' @ [CHR 0x5C] @ '',(''
             @ num nf (avgX keyframes) @ ''*iw)-(1080/2)))'' \<and>
         0 \<le> eval_expr iw ih (cropXExpr (avgX keyframes)) \<and>
         eval_expr iw ih (cropXExpr (avgX keyframes)) \<le> iw - 1080 \<and>
         eval_expr iw ih (cropXExpr (avgX keyframes)) + 1080 \<le> iw"
proof -
  have "vFilter clip ! 3 = take 4 (vFilter clip) ! 3" by simp
  then have stage: "vFilter clip ! 3 = VCrop 1080 1920 (cropXExpr (avgX keyframes)) cropYExpr"
    unfolding vFilter_reframed [OF assms(1,2)] by simp
  have range: "0 \<le> eval_expr iw ih (cropXExpr (avgX keyframes))"
      "eval_expr iw ih (cropXExpr (avgX keyframes)) \<le> iw - 1080"
    using assms(3) unfolding eval_cropXExpr by simp_all
  from stage range show ?thesis
    by (simp add: render_cropXExpr)
qed

theorem crop_offset_clamped_witness:
  "0 \<le> eval_expr 3413 1920 (cropXExpr (avgX [keyframeAt 2, keyframeAt 3])) \<and>
   eval_expr 3413 1920 (cropXExpr (avgX [keyframeAt 2, keyframeAt 3])) \<le> 3413 - 1080"
proof -
  let ?clip = "plainClip ''m1'' 0 5\<lparr>reframeKeyframes := Some [keyframeAt 2, keyframeAt 3]\<rparr>"
  have a: "reframeKeyframes ?clip = Some [keyframeAt 2, keyframeAt 3]"
    by (simp add: plainClip_def)
  have b: "[keyframeAt 2, keyframeAt 3] \<noteq> []" by simp
  have c: "(1080::real) \<le> 3413" by simp
  from crop_offset_clamped [OF a b c, where ih = 1920] show ?thesis by blast
qed

text \<open>
  C7, as stated, fails: a single keyframe at \<open>x = 0\<close> has mean 0, the left edge of the
  frame, but on a frame 2160 wide the crop window starts at offset 0 and so is centred at
  540, a quarter of the width, not at the mean.
\<close>

theorem crop_centre_counterexample:
  "vFilter (plainClip ''m1'' 0 5\<lparr>reframeKeyframes := Some [keyframeAt 0]\<rparr>) ! 3
     = VCrop 1080 1920 (cropXExpr 0) cropYExpr \<and>
   eval_expr 2160 1920 (cropXExpr (avgX [keyframeAt 0])) + 1080 / 2
     \<noteq> avgX [keyframeAt 0] * 2160"
  by (simp add: vFilter_def plainClip_def avgX_def keyframeAt_def eval_cropXExpr)

text \<open>
  C7, amended: for every clip with a non-empty \<open>reframeKeyframes\<close> list the video chain,
  after the trim, first scales the source to cover 1080x1920 and then crops a window of
  the fixed size 1080x1920. The window's left edge is the arithmetic mean of the
  keyframes' x positions times the frame width, minus 540, clamped to [0, iw - 1080]: the
  window is centred horizontally on the mean x position whenever that keeps it inside the
  frame, and is moved to the nearest frame edge otherwise. Its vertical centre is the
  frame middle. Only the x values of the keyframes enter the filter, so nothing is zoomed
  whatever their scale values are.
\<close>

theorem reframe_crop:
  assumes "reframeKeyframes clip = Some keyframes" and "keyframes \<noteq> []"
      and mean: "mean = sum_list (map kf_x keyframes) / real (length keyframes)"
  shows "take 4 (vFilter clip) =
           [VTrim (sourceStart clip) (sourceEnd clip - sourceStart clip), VSetptsStart,
            VScaleCover 1080 1920,
            VCrop 1080 1920 (cropXExpr mean) cropYExpr] \<and>
         eval_expr iw ih (cropXExpr mean) = max 0 (min (iw - 1080) (mean * iw - 540)) \<and>
         (540 \<le> mean * iw \<and> mean * iw \<le> iw - 540 \<longrightarrow>
            eval_expr iw ih (cropXExpr mean) + 1080 / 2 = mean * iw) \<and>
         eval_expr iw ih cropYExpr + 1920 / 2 = ih / 2"
proof -
  have "avgX keyframes = mean" by (simp add: avgX_mean mean)
  with vFilter_reframed [OF assms(1,2)] show ?thesis
    by (auto simp add: eval_cropXExpr eval_cropYExpr field_simps)
qed

theorem reframe_crop_witness:
  "take 4 (vFilter (plainClip ''m1'' 0 5\<lparr>reframeKeyframes :=
             Some [keyframeAt (1 / 4), keyframeAt (3 / 4)]\<rparr>)) =
     [VTrim 0 5, VSetptsStart, VScaleCover 1080 1920,
      VCrop 1080 1920 (cropXExpr (1 / 2)) cropYExpr] \<and>
   eval_expr 2160 1920 (cropXExpr (1 / 2)) + 1080 / 2 = 1 / 2 * 2160"
proof -
  let ?kfs = "[keyframeAt (1 / 4), keyframeAt (3 / 4)]"
  let ?clip = "plainClip ''m1'' 0 5\<lparr>reframeKeyframes := Some ?kfs\<rparr>"
  have a: "reframeKeyframes ?clip = Some ?kfs" by (simp add: plainClip_def)
  have b: "?kfs \<noteq> []" by simp
  have c: "(1 / 2 :: real) = sum_list (map kf_x ?kfs) / real (length ?kfs)"
    by (simp add: keyframeAt_def)
  have fits: "(540::real) \<le> 1 / 2 * 2160 \<and> (1 / 2 :: real) * 2160 \<le> 2160 - 540"
    by simp
  from reframe_crop [OF a b c, where iw = 2160 and ih = 1920] fits
  have "take 4 (vFilter ?clip) =
           [VTrim (sourceStart ?clip) (sourceEnd ?clip - sourceStart ?clip), VSetptsStart,
            VScaleCover 1080 1920, VCrop 1080 1920 (cropXExpr (1 / 2)) cropYExpr]"
     and "eval_expr 2160 1920 (cropXExpr (1 / 2)) + 1080 / 2 = 1 / 2 * 2160"
    by blast+
  then show ?thesis by (simp add: plainClip_def)
qed

section \<open>Properties of the audio mix stage\<close>

lemma musicChains_append:
  "musicChains n (xs @ ys) = musicChains n xs @ musicChains (n + length xs) ys"
  by (induction xs arbitrary: n) auto

lemma mixClip_found:
  assumes "findUpload env clip = Some f"
  shows "mix_filters (mixClip env track clip m) = mix_filters m @ musicChain (inputIndex m) track clip"
    and "audioInputs (mixClip env track clip m) = audioInputs m @ [L_a_out (inputIndex m)]"
    and "inputIndex (mixClip env track clip m) = Suc (inputIndex m)"
  using assms by (simp_all add: mixClip_def musicChain_def Let_def)

lemma mixClip_not_found:
  assumes "findUpload env clip = None"
  shows "mixClip env track clip m = m"
  using assms by (simp add: mixClip_def)

lemma outLabels_append: "outLabels n (k + l) = outLabels n k @ outLabels (n + k) l"
  by (induction k arbitrary: n) auto

lemma outLabels_upt: "outLabels n k = map L_a_out [n ..< n + k]"
proof (induction k arbitrary: n)
  case 0
  show ?case by simp
next
  case (Suc k)
  have "[n ..< n + Suc k] = n # [Suc n ..< Suc n + k]"
    using upt_rec [of n "n + Suc k"] by simp
  then show ?case using Suc.IH [of "Suc n"] by simp
qed

lemma fold_mixClip:
  "mix_filters (fold (mixClip env track) cs m) =
     mix_filters m @ musicChains (inputIndex m)
       (map (Pair track) (filter (\<lambda>clip. findUpload env clip \<noteq> None) cs)) \<and>
   audioInputs (fold (mixClip env track) cs m) =
     audioInputs m @ outLabels (inputIndex m)
       (length (filter (\<lambda>clip. findUpload env clip \<noteq> None) cs)) \<and>
   inputIndex (fold (mixClip env track) cs m) =
     inputIndex m + length (filter (\<lambda>clip. findUpload env clip \<noteq> None) cs)"
proof (induction cs arbitrary: m)
  case Nil
  show ?case by simp
next
  case (Cons c cs)
  show ?case
  proof (cases "findUpload env c")
    case None
    then show ?thesis using Cons.IH [of m] by (simp add: mixClip_not_found)
  next
    case (Some f)
    note found = mixClip_found [OF Some, of track m]
    from Some show ?thesis
      using Cons.IH [of "mixClip env track c m"]
      by (simp add: found)
  qed
qed

lemma fold_tracks:
  "mix_filters (fold (\<lambda>track m. fold (mixClip env track) (clips track) m) ts m) =
     mix_filters m @ musicChains (inputIndex m)
       (concat (map (\<lambda>track. map (Pair track)
                  (filter (\<lambda>clip. findUpload env clip \<noteq> None) (clips track))) ts)) \<and>
   audioInputs (fold (\<lambda>track m. fold (mixClip env track) (clips track) m) ts m) =
     audioInputs m @ outLabels (inputIndex m)
       (length (concat (map (\<lambda>track. map (Pair track)
                  (filter (\<lambda>clip. findUpload env clip \<noteq> None) (clips track))) ts))) \<and>
   inputIndex (fold (\<lambda>track m. fold (mixClip env track) (clips track) m) ts m) =
     inputIndex m + length (concat (map (\<lambda>track. map (Pair track)
                  (filter (\<lambda>clip. findUpload env clip \<noteq> None) (clips track))) ts))"
proof (induction ts arbitrary: m)
  case Nil
  show ?case by simp
next
  case (Cons t ts)
  show ?case
    using Cons.IH [of "fold (mixClip env t) (clips t) m"] fold_mixClip [of env t "clips t" m]
    by (simp add: musicChains_append outLabels_append)
qed

lemma mixTracks_resolved:
  "mix_filters (mixTracks env timelineData n) = musicChains n (resolvedMusic env timelineData)"
  "audioInputs (mixTracks env timelineData n) =
     L_a_final # outLabels n (length (resolvedMusic env timelineData))"
  using fold_tracks [of env "musicTracks timelineData"
          "\<lparr>mix_filters = [], inputs = [], audioInputs = [L_a_final], inputIndex = n\<rparr>"]
  by (simp_all add: mixTracks_def resolvedMusic_def musicTracks_def)

lemma length_outLabels: "length (outLabels n k) = k"
  by (induction k arbitrary: n) simp_all

lemma export_compile_filters:
  assumes compiled: "export_compile env timelineData = Inr plan"
      and cs: "cs = clips (hd (videoTracks timelineData))"
      and filters: "prepareInputs env (hd (videoTracks timelineData)) 0 cs = Inr (inputData, filters)"
  shows "plan_filterComplex plan =
           filterComplex (transitionChain cs filters)
           @ mix_filters (mixTracks env timelineData (length cs))
           @ [mixOutput (audioInputs (mixTracks env timelineData (length cs)))]"
proof -
  from export_compile_plan [OF compiled] obtain inputData' filters' where
    a: "prepareInputs env (hd (videoTracks timelineData)) 0
             (clips (hd (videoTracks timelineData))) = Inr (inputData', filters')"
    and b: "plan_filterComplex plan =
             filterComplex (transitionChain (clips (hd (videoTracks timelineData))) filters')
             @ mix_filters (mixTracks env timelineData
                              (length (clips (hd (videoTracks timelineData)))))
             @ [mixOutput (audioInputs (mixTracks env timelineData
                              (length (clips (hd (videoTracks timelineData))))))]"
    by blast
  from a filters have "filters' = filters" unfolding cs by simp
  with b show ?thesis unfolding cs by simp
qed

lemma export_compile_musicTimeline:
  "export_compile sampleEnv musicTimeline =
     Inr \<lparr>plan_filterComplex =
            plainFilters 0 0 10 @
            [NullV (L_v 0) L_v_final, Aresample (L_a 0) L_a_final,
             Atrim 1 0 3 (L_a_trim 1), Adelay (L_a_trim 1) 0 (L_a_delay 1),
             Volume (L_a_delay 1) 1 (L_a_vol 1), Aresample (L_a_vol 1) (L_a_out 1),
             Amix [L_a_final, L_a_out 1] 2 amix_first 2 L_a_mixed],
          plan_inputData =
            [\<lparr>in_path = ''uploads/17-m1'', in_isImage = False, in_duration = 10\<rparr>],
          plan_inputs = [''uploads/17-song''],
          plan_chainEnd = 10\<rparr>"
proof -
  have song: "findUpload sampleEnv (plainClip ''song'' 0 3) = Some (upload ''17'' ''song'')"
    by (simp add: findUpload_def sample_defs)
  have prep: "prepareInputs sampleEnv \<lparr>clips = [plainClip ''m1'' 0 10], track_volume = Some 1\<rparr> 0
                [plainClip ''m1'' 0 10] =
              Inr ([\<lparr>in_path = ''uploads/17-m1'', in_isImage = False, in_duration = 10\<rparr>],
                   plainFilters 0 0 10)"
    by (simp add: getVideoPath_sample not_image_sample vFilter_def aFilter_def plainFilters_def)
       (simp add: plainClip_def)
  have chain: "transitionChain [plainClip ''m1'' 0 10] fs =
     \<lparr>filterComplex = fs @ [NullV (L_v 0) L_v_final, Aresample (L_a 0) L_a_final],
      lastV = L_v 0, lastA = L_a 0, currentChainEnd = 10\<rparr>" for fs
    by (simp add: transitionChain_def chainStart_def startTransition_def endTransition_def
                  finalOutputs_def plainClip_def)
  have mix: "mixTracks sampleEnv musicTimeline (Suc 0) =
     \<lparr>mix_filters =
        [Atrim 1 0 3 (L_a_trim 1), Adelay (L_a_trim 1) 0 (L_a_delay 1),
         Volume (L_a_delay 1) 1 (L_a_vol 1), Aresample (L_a_vol 1) (L_a_out 1)],
      inputs = [''uploads/17-song''],
      audioInputs = [L_a_final, L_a_out 1],
      inputIndex = 2\<rparr>"
    by (simp add: mixTracks_def musicTimeline_def soloTimeline_def mixClip_def song Let_def)
       (simp add: plainClip_def upload_def)
  have tl: "layout musicTimeline = solo"
      "videoTracks musicTimeline = [\<lparr>clips = [plainClip ''m1'' 0 10], track_volume = Some 1\<rparr>]"
    by (simp_all add: musicTimeline_def soloTimeline_def)
  show ?thesis
    unfolding export_compile_def tl
    by (simp add: prep chain mix mixOutput_def Let_def del: prepareInputs.simps)
qed

text \<open>
  C5, as stated, fails: with a master stream of 10 s and one song of 3 s the mixer the
  compiler emits is \<open>amix=inputs=2:duration=first\<close>, whose output lasts as long as its
  first input, the master, 10 s, and not as long as the shortest input, 3 s.
\<close>

theorem amix_duration_counterexample:
  "last (plan_filterComplex (projr (export_compile sampleEnv musicTimeline)))
     = Amix [L_a_final, L_a_out 1] 2 amix_first 2 L_a_mixed \<and>
   amix_length amix_first [10, 3] \<noteq> amix_length amix_shortest [10, 3]"
  by (simp add: export_compile_musicTimeline amix_length_def)

text \<open>
  C5, amended: after the transition chain the filter graph holds, for each clip of the
  audio tracks whose file is found, the four filters that trim it, delay it to its
  timeline start, scale its volume and resample it, and then one last filter. When at
  least one such clip is found the last filter is an amplitude mixer over the master
  stream, as its first input, and all those streams, with \<open>duration=first\<close>: the mixed
  output lasts as long as the master stream, whatever the lengths of the others. When the
  master stream is the only input the last filter is the passthrough \<open>anull\<close> of the
  master stream.
\<close>

theorem audio_mix_stage:
  assumes compiled: "export_compile env timelineData = Inr plan"
      and cs: "cs = clips (hd (videoTracks timelineData))"
      and filters: "prepareInputs env (hd (videoTracks timelineData)) 0 cs = Inr (inputData, filters)"
      and music: "music = resolvedMusic env timelineData"
  shows "plan_filterComplex plan =
           filterComplex (transitionChain cs filters)
           @ musicChains (length cs) music
           @ [if music \<noteq> []
              then Amix (L_a_final # outLabels (length cs) (length music))
                        (length music + 1) amix_first 2 L_a_mixed
              else Anull L_a_final L_a_mixed] \<and>
         amix_length amix_first (master # others) = master"
  unfolding export_compile_filters [OF compiled cs filters] music
  by (cases "resolvedMusic env timelineData")
     (simp_all add: mixTracks_resolved mixOutput_def amix_length_def length_outLabels)

theorem audio_mix_stage_witness:
  "plan_filterComplex (projr (export_compile sampleEnv musicTimeline)) =
     plainFilters 0 0 10 @
     [NullV (L_v 0) L_v_final, Aresample (L_a 0) L_a_final,
      Atrim 1 0 3 (L_a_trim 1), Adelay (L_a_trim 1) 0 (L_a_delay 1),
      Volume (L_a_delay 1) 1 (L_a_vol 1), Aresample (L_a_vol 1) (L_a_out 1),
      Amix [L_a_final, L_a_out 1] 2 amix_first 2 L_a_mixed] \<and>
   amix_length amix_first [10, 3] = 10"
proof -
  let ?track = "\<lparr>clips = [plainClip ''m1'' 0 10], track_volume = Some 1\<rparr>"
  let ?music = "\<lparr>clips = [plainClip ''song'' 0 3], track_volume = Some 1\<rparr>"
  note compiled = export_compile_musicTimeline
  have cs: "[plainClip ''m1'' 0 10] = clips (hd (videoTracks musicTimeline))"
    by (simp add: musicTimeline_def soloTimeline_def)
  have filters: "prepareInputs sampleEnv (hd (videoTracks musicTimeline)) 0 [plainClip ''m1'' 0 10] =
              Inr ([\<lparr>in_path = ''uploads/17-m1'', in_isImage = False, in_duration = 10\<rparr>],
                   plainFilters 0 0 10)"
    by (simp add: musicTimeline_def soloTimeline_def getVideoPath_sample not_image_sample
                  vFilter_def aFilter_def plainFilters_def)
       (simp add: plainClip_def)
  have music: "[(?music, plainClip ''song'' 0 3)] = resolvedMusic sampleEnv musicTimeline"
    by (simp add: resolvedMusic_def musicTracks_def musicTimeline_def soloTimeline_def
                  findUpload_def sampleEnv_def upload_def plainClip_def)
  from audio_mix_stage [OF compiled cs filters music, of 10 "[3]"]
  show ?thesis
    by (simp add: export_compile_musicTimeline)
qed

section \<open>Compiling a timeline twice\<close>

lemma prepareInputs_sameMedia:
  assumes "list_all (\<lambda>clip. rel_option (\<lambda>p q. (p = []) = (q = []) \<and> isImage p = isImage q)
                            (getVideoPath env1 clip) (getVideoPath env2 clip)) cs"
  shows "map_sum id snd (prepareInputs env1 track i cs)
           = map_sum id snd (prepareInputs env2 track i cs)"
  using assms
proof (induction cs arbitrary: i)
  case Nil
  show ?case by simp
next
  case (Cons c cs)
  from Cons.prems have rest: "map_sum id snd (prepareInputs env1 track (Suc i) cs)
           = map_sum id snd (prepareInputs env2 track (Suc i) cs)"
    by (intro Cons.IH) simp
  from Cons.prems have here: "rel_option (\<lambda>p q. (p = []) = (q = []) \<and> isImage p = isImage q)
                            (getVideoPath env1 c) (getVideoPath env2 c)"
    by simp
  show ?case
  proof (cases "getVideoPath env1 c")
    case None
    with here have "getVideoPath env2 c = None" by (cases "getVideoPath env2 c") simp_all
    with None show ?thesis by simp
  next
    case (Some p)
    with here obtain q where q: "getVideoPath env2 c = Some q"
      and pq: "(p = []) = (q = [])" "isImage p = isImage q"
      by (cases "getVideoPath env2 c") simp_all
    show ?thesis
    proof (cases "p = []")
      case True
      with Some q pq show ?thesis by simp
    next
      case False
      with pq have "q \<noteq> []" by simp
      with False Some q pq rest show ?thesis
        by (cases "prepareInputs env1 track (Suc i) cs";
            cases "prepareInputs env2 track (Suc i) cs") auto
    qed
  qed
qed

lemma resolvedMusic_sameMedia:
  assumes "list_all (\<lambda>clip. (findUpload env1 clip = None) = (findUpload env2 clip = None))
             (concat (map clips (musicTracks timelineData)))"
  shows "resolvedMusic env1 timelineData = resolvedMusic env2 timelineData"
proof -
  have "filter (\<lambda>clip. findUpload env1 clip \<noteq> None) (clips track)
          = filter (\<lambda>clip. findUpload env2 clip \<noteq> None) (clips track)"
    if "track \<in> set (musicTracks timelineData)" for track
    using assms that by (intro filter_cong) (auto simp add: list_all_iff)
  then show ?thesis
    unfolding resolvedMusic_def by (intro arg_cong [where f = concat] map_cong) simp_all
qed

lemma graphOf_compile:
  assumes "layout timelineData = solo" and "videoTracks timelineData = [track]"
      and "clips track \<noteq> []"
  shows "graphOf (export_compile env timelineData) =
     map_sum id (\<lambda>filters.
         (filterComplex (transitionChain (clips track) filters)
          @ musicChains (length (clips track)) (resolvedMusic env timelineData)
          @ [mixOutput (L_a_final # outLabels (length (clips track))
                          (length (resolvedMusic env timelineData)))],
          currentChainEnd (transitionChain (clips track) filters)))
       (map_sum id snd (prepareInputs env track 0 (clips track)))"
  using assms
  by (cases "prepareInputs env track 0 (clips track)")
     (auto simp add: graphOf_def export_compile_def Let_def mixTracks_resolved)

text \<open>
  C8: compile one timeline in two requests whose registries, file systems and uploads may
  differ, as long as they resolve the media of the timeline alike. Both compilations end
  in the same error or in the same list of filters, equal in every structure, label,
  offset, duration and volume, with the same chain end; so the strings of the filter
  graph are equal too, however numbers are printed. The generated upload names reach
  only the list of input files.
\<close>

theorem compile_deterministic:
  assumes "sameMedia env1 env2 timelineData"
  shows "graphOf (export_compile env1 timelineData)
           = graphOf (export_compile env2 timelineData) \<and>
         map_sum id (\<lambda>g. map (render nf) (fst g)) (graphOf (export_compile env1 timelineData))
           = map_sum id (\<lambda>g. map (render nf) (fst g))
               (graphOf (export_compile env2 timelineData))"
proof -
  have "graphOf (export_compile env1 timelineData)
          = graphOf (export_compile env2 timelineData)"
  proof (cases "layout timelineData \<noteq> solo \<or> length (videoTracks timelineData) \<noteq> 1")
    case True
    then show ?thesis by (simp add: export_compile_def graphOf_def)
  next
    case False
    then obtain track where tracks: "videoTracks timelineData = [track]"
      by (cases "videoTracks timelineData") auto
    from False have solo: "layout timelineData = solo" by simp
    show ?thesis
    proof (cases "clips track = []")
      case True
      with False tracks show ?thesis by (simp add: export_compile_def graphOf_def)
    next
      case False
      from assms tracks have
        "map_sum id snd (prepareInputs env1 track 0 (clips track))
           = map_sum id snd (prepareInputs env2 track 0 (clips track))"
        by (intro prepareInputs_sameMedia) (simp add: sameMedia_def)
      moreover from assms have "resolvedMusic env1 timelineData = resolvedMusic env2 timelineData"
        by (intro resolvedMusic_sameMedia) (simp add: sameMedia_def)
      ultimately show ?thesis
        unfolding graphOf_compile [OF solo tracks False] by simp
    qed
  qed
  then show ?thesis by simp
qed

theorem compile_deterministic_witness:
  "graphOf (export_compile sampleEnv (soloTimeline (twoClips 5 2) [plainClip ''song'' 0 3]))
     = graphOf (export_compile sampleEnv2 (soloTimeline (twoClips 5 2) [plainClip ''song'' 0 3]))"
proof -
  have v1: "getVideoPath sampleEnv2 (plainClip ''m1'' s e\<lparr>transitionEnd := x\<rparr>)
              = Some ''uploads/18-m1''"
       "getVideoPath sampleEnv2 (plainClip ''m2'' s e) = Some ''uploads/18-m2''" for s e x
    by (simp_all add: getVideoPath_def findUpload_def sampleEnv2_def upload_def plainClip_def)
  have img: "\<not> isImage ''uploads/18-m1''" "\<not> isImage ''uploads/18-m2''"
    by (simp_all add: isImage_def ends_with_def lower_char_def)
  have song: "findUpload sampleEnv (plainClip ''song'' 0 3) \<noteq> None"
      "findUpload sampleEnv2 (plainClip ''song'' 0 3) \<noteq> None"
    by (simp_all add: findUpload_def sampleEnv_def sampleEnv2_def upload_def plainClip_def)
  have "sameMedia sampleEnv sampleEnv2 (soloTimeline (twoClips 5 2) [plainClip ''song'' 0 3])"
    unfolding sameMedia_def
    by (simp add: soloTimeline_def musicTracks_def twoClips_def getVideoPath_sample v1
                  not_image_sample img song)
  from compile_deterministic [OF this] show ?thesis by blast
qed

section \<open>No cross-fade at a negative offset\<close>

lemma prepareInputs_nonneg:
  "prepareInputs env track i cs = Inr (inputData, filters) \<Longrightarrow> list_all nonneg_offset filters"
proof (induction cs arbitrary: i inputData filters)
  case Nil
  then show ?case by simp
next
  case (Cons c cs)
  from Cons.prems obtain ds fs where rest: "prepareInputs env track (Suc i) cs = Inr (ds, fs)"
    and filters: "filters = ClipVideo i (vFilter c)
                    # aFilter track i c (isImage (the (getVideoPath env c))) # fs"
    by (auto split: option.splits if_splits sum.splits)
  have "nonneg_offset (aFilter track i c b)" for b
    by (simp add: aFilter_def nonneg_offset_def Let_def)
  with Cons.IH [OF rest] show ?case
    unfolding filters by (simp add: nonneg_offset_def)
qed

lemma startTransition_nonneg:
  "list_all nonneg_offset (filterComplex st) \<Longrightarrow>
   list_all nonneg_offset (filterComplex (startTransition c st))"
  by (auto simp add: startTransition_def nonneg_offset_def Let_def split: option.splits)

lemma middleStep_nonneg:
  "list_all nonneg_offset (filterComplex st) \<Longrightarrow>
   list_all nonneg_offset (filterComplex (middleStep i c n st))"
  by (auto simp add: middleStep_def nonneg_offset_def Let_def split: prod.splits)

lemma middleTransitions_nonneg:
  "list_all nonneg_offset (filterComplex st) \<Longrightarrow>
   list_all nonneg_offset (filterComplex (middleTransitions i cs st))"
proof (induction i cs st rule: middleTransitions.induct)
  case (1 i clip nextClip rest st)
  from "1.prems" have "list_all nonneg_offset (filterComplex (middleStep i clip nextClip st))"
    by (rule middleStep_nonneg)
  then show ?case using "1.IH" by simp
qed simp_all

lemma endTransition_nonneg:
  "list_all nonneg_offset (filterComplex st) \<Longrightarrow>
   list_all nonneg_offset (filterComplex (endTransition c st))"
  by (auto simp add: endTransition_def nonneg_offset_def Let_def split: option.splits)

lemma transitionChain_nonneg:
  assumes "list_all nonneg_offset filters"
  shows "list_all nonneg_offset (filterComplex (transitionChain cs filters))"
proof -
  have "list_all nonneg_offset (filterComplex (chainStart cs filters))"
    unfolding chainStart_def using assms by (intro startTransition_nonneg) simp
  then have "list_all nonneg_offset
               (filterComplex (endTransition (last cs)
                  (middleTransitions 0 cs (chainStart cs filters))))"
    by (intro endTransition_nonneg middleTransitions_nonneg)
  then show ?thesis
    by (simp add: transitionChain_def finalOutputs_def nonneg_offset_def)
qed

lemma musicChains_nonneg: "list_all nonneg_offset (musicChains n xs)"
  by (induction n xs rule: musicChains.induct) (simp_all add: musicChain_def nonneg_offset_def)

text \<open>
  Whatever the timeline, a compiled filter graph holds no \<open>xfade\<close> with a negative
  offset: the loop emits a cross-fade only in the branch where the offset is not negative.
\<close>

lemma plan_offsets_nonneg:
  assumes "export_compile env timelineData = Inr plan"
  shows "list_all nonneg_offset (plan_filterComplex plan)"
proof -
  from export_compile_plan [OF assms] obtain inputData filters where
    a: "prepareInputs env (hd (videoTracks timelineData)) 0
             (clips (hd (videoTracks timelineData))) = Inr (inputData, filters)"
    and b: "plan_filterComplex plan =
             filterComplex (transitionChain (clips (hd (videoTracks timelineData))) filters)
             @ mix_filters (mixTracks env timelineData
                              (length (clips (hd (videoTracks timelineData)))))
             @ [mixOutput (audioInputs (mixTracks env timelineData
                              (length (clips (hd (videoTracks timelineData))))))]"
    by blast
  have "nonneg_offset (mixOutput ins)" for ins
    by (simp add: mixOutput_def nonneg_offset_def)
  with transitionChain_nonneg [OF prepareInputs_nonneg [OF a]] show ?thesis
    unfolding b by (simp add: mixTracks_resolved musicChains_nonneg)
qed

end
